theory Spec2Isabelle
  imports Complex_Main "HOL-Library.Char_ord" "HOL-Library.List_Lexorder" "HOL-Library.Multiset"
begin

text \<open>
  A model of \<open>recommendation_engine.py\<close>: the module keeps a data frame of movies, a
  TF-IDF vectorizer and a TF-IDF matrix in three globals; \<open>load_and_preprocess_data\<close>
  builds them from a CSV file and \<open>get_recommendations\<close> ranks the movies against a
  storyline by cosine similarity. The calls into pandas, NLTK and scikit-learn are modelled
  by what they compute on the values the engine passes to them.
\<close>

section \<open>Python string operations used by the engine\<close>

text \<open>
  A storyline is a Python \<open>str\<close>; it is modelled as a \<open>string\<close> whose characters are the
  code points below 256. \<open>isspace\<close> is the whitespace test shared by \<open>str.split()\<close> and
  by the class \<open>\s\<close> of \<open>re\<close> on \<open>str\<close> patterns.
\<close>

definition isspace :: "char \<Rightarrow> bool" where
  "isspace c = (c \<in> set [CHR 0x09, CHR 0x0A, CHR 0x0B, CHR 0x0C, CHR 0x0D,
                         CHR 0x1C, CHR 0x1D, CHR 0x1E, CHR 0x1F, CHR 0x20,
                         CHR 0x85, CHR 0xA0])"

text \<open>
  \<open>str.lower()\<close>: the ASCII capitals (65 to 90) and the Latin-1 capitals (192 to 222 but
  215) move up by 32, which sets the bit of weight 32 of the code point.
\<close>

definition lower_char :: "char \<Rightarrow> char" where
  "lower_char c =
     (let n = (of_char c :: nat)
      in if (65 \<le> n \<and> n \<le> 90) \<or> (192 \<le> n \<and> n \<le> 222 \<and> n \<noteq> 215)
         then (case c of Char b0 b1 b2 b3 b4 b5 b6 b7 \<Rightarrow> Char b0 b1 b2 b3 b4 True b6 b7)
         else c)"

definition str_lower :: "string \<Rightarrow> string" where
  "str_lower text = map lower_char text"

text \<open>\<open>re.sub(r'[^a-z0-9\s]', '', text)\<close>: every character outside the class is deleted.\<close>

definition re_sub_special :: "string \<Rightarrow> string" where
  "re_sub_special text =
     filter (\<lambda>c. c \<in> set ''abcdefghijklmnopqrstuvwxyz0123456789'' \<or> isspace c) text"

text \<open>
  \<open>split_on sep s\<close> are the maximal runs of characters of \<open>s\<close> that are not separators.
  \<open>str.split()\<close> without argument is \<open>split_on isspace\<close>.
\<close>

function split_on :: "('a \<Rightarrow> bool) \<Rightarrow> 'a list \<Rightarrow> 'a list list" where
  "split_on sep [] = []"
| "split_on sep (x # xs) =
     (if sep x then split_on sep xs
      else (x # takeWhile (\<lambda>c. \<not> sep c) xs) # split_on sep (dropWhile (\<lambda>c. \<not> sep c) xs))"
  by pat_completeness auto
termination
  by (relation "measure (\<lambda>(sep, xs). length xs)")
     (auto simp: less_Suc_eq_le length_dropWhile_le)

definition str_split :: "string \<Rightarrow> string list" where
  "str_split text = split_on isspace text"

text \<open>\<open>' '.join(words)\<close>.\<close>

fun str_join :: "string list \<Rightarrow> string" where
  "str_join [] = []"
| "str_join [w] = w"
| "str_join (w # ws) = w @ '' '' @ str_join ws"

subsection \<open>The two copies of the cleaning code\<close>

text \<open>
  \<open>clean_text\<close> is the function nested in \<open>load_and_preprocess_data\<close> (lines 44 to 51);
  the parameter \<open>stopwords\<close> is the list \<open>stopwords.words('english')\<close> of NLTK, which is data
  outside the repository.
\<close>

definition clean_text :: "string list \<Rightarrow> string \<Rightarrow> string" where
  "clean_text stopwords text =
     (let text = str_lower text;
          text = re_sub_special text;
          text = str_join [word \<leftarrow> str_split text. word \<notin> set stopwords]
      in text)"

text \<open>
  \<open>preprocess_user_storyline\<close> is the inline code of \<open>get_recommendations\<close>
  (lines 87 to 89), three assignments to \<open>user_storyline\<close>.
\<close>

definition preprocess_user_storyline :: "string list \<Rightarrow> string \<Rightarrow> string" where
  "preprocess_user_storyline stopwords user_storyline =
     (let user_storyline = str_lower user_storyline;
          user_storyline = re_sub_special user_storyline;
          user_storyline = str_join [word \<leftarrow> str_split user_storyline. word \<notin> set stopwords]
      in user_storyline)"

section \<open>Exceptions and checked operations\<close>

datatype exn =
    FileNotFoundError
  | ReadError
  | AttributeError
  | ValueError
  | NotFittedError
  | IndexError
  | ZeroDivisionError

text \<open>
  Division of HOL is total (\<open>x / 0 = 0\<close>); the model divides through \<open>checked_div\<close>, so
  that a division by zero is an outcome of its own.
\<close>

definition checked_div :: "real \<Rightarrow> real \<Rightarrow> exn + real" where
  "checked_div x y = (if y = 0 then Inl ZeroDivisionError else Inr (x / y))"

text \<open>\<open>try_map f xs\<close> runs \<open>f\<close> over \<open>xs\<close> from the left and stops at the first exception.\<close>

fun try_map :: "('a \<Rightarrow> exn + 'b) \<Rightarrow> 'a list \<Rightarrow> exn + 'b list" where
  "try_map f [] = Inr []"
| "try_map f (x # xs) =
     (case f x of
        Inl e \<Rightarrow> Inl e
      | Inr y \<Rightarrow> (case try_map f xs of Inl e \<Rightarrow> Inl e | Inr ys \<Rightarrow> Inr (y # ys)))"

section \<open>The scikit-learn parts: \<open>TfidfVectorizer\<close> and \<open>cosine_similarity\<close>\<close>

text \<open>
  The engine constructs \<open>TfidfVectorizer(stop_words='english')\<close>; every other parameter has
  its default: \<open>lowercase=True\<close>, \<open>token_pattern=r"(?u)\b\w\w+\b"\<close>, unigrams,
  \<open>use_idf\<close>, \<open>smooth_idf\<close>, \<open>norm='l2'\<close>. Weights are real numbers here; the same
  routines with every operation rounded to binary64 follow in the section on floating
  point.
\<close>

text \<open>The class \<open>\w\<close> on code points below 256: the alphanumeric ones and the underscore.\<close>

definition is_word_char :: "char \<Rightarrow> bool" where
  "is_word_char c =
     (let n = (of_char c :: nat)
      in (48 \<le> n \<and> n \<le> 57) \<or> (65 \<le> n \<and> n \<le> 90) \<or> n = 95 \<or> (97 \<le> n \<and> n \<le> 122)
         \<or> n = 170 \<or> n = 178 \<or> n = 179 \<or> n = 181 \<or> n = 185 \<or> n = 186
         \<or> (188 \<le> n \<and> n \<le> 190) \<or> (192 \<le> n \<and> n \<le> 214) \<or> (216 \<le> n \<and> n \<le> 246)
         \<or> 248 \<le> n)"

text \<open>The default token pattern keeps the runs of two or more word characters.\<close>

definition tokenize :: "string \<Rightarrow> string list" where
  "tokenize doc = [t \<leftarrow> split_on (\<lambda>c. \<not> is_word_char c) doc. 2 \<le> length t]"

text \<open>The analyzer: lowercase, tokenize, drop the stop words of the vectorizer.\<close>

definition build_analyzer :: "string list \<Rightarrow> string \<Rightarrow> string list" where
  "build_analyzer stop_words doc = [t \<leftarrow> tokenize (str_lower doc). t \<notin> set stop_words]"

record TfidfVectorizer =
  stop_words :: "string list"
  vocabulary :: "string list option"
  idf :: "real list"

text \<open>
  \<open>vocabulary\<close> is the attribute \<open>vocabulary_\<close>, the dictionary from term to column; since the columns are numbered in
  sorted order of the terms, it is kept as the sorted list of terms. It is \<open>None\<close> until
  the vectorizer is fitted. \<open>idf\<close> is the attribute \<open>idf_\<close>, one weight per column.
\<close>

definition new_TfidfVectorizer :: "string list \<Rightarrow> TfidfVectorizer" where
  "new_TfidfVectorizer english = \<lparr>stop_words = english, vocabulary = None, idf = []\<rparr>"

definition count_row :: "string list \<Rightarrow> string list \<Rightarrow> real list" where
  "count_row vocab tokens = map (\<lambda>t. real (count_list tokens t)) vocab"

definition document_frequency :: "string list list \<Rightarrow> string \<Rightarrow> nat" where
  "document_frequency docs t = length [d \<leftarrow> docs. t \<in> set d]"

text \<open>Smoothed inverse document frequency: \<open>log((1 + n) / (1 + df)) + 1\<close>.\<close>

definition smooth_idf :: "string list list \<Rightarrow> string \<Rightarrow> exn + real" where
  "smooth_idf docs t =
     (case checked_div (1 + real (length docs)) (1 + real (document_frequency docs t)) of
        Inl e \<Rightarrow> Inl e
      | Inr q \<Rightarrow> Inr (ln q + 1))"

text \<open>
  Row normalisation to unit Euclidean length, as the sparse routine does it: a row whose
  sum of squares is zero is skipped, any other row is divided by the square root of the sum.
\<close>

definition normalize_row :: "real list \<Rightarrow> exn + real list" where
  "normalize_row row =
     (let s = sum_list (map (\<lambda>x. x * x) row)
      in if s = 0 then Inr row else try_map (\<lambda>x. checked_div x (sqrt s)) row)"

definition tfidf_row :: "real list \<Rightarrow> real list \<Rightarrow> exn + real list" where
  "tfidf_row weights counts = normalize_row (map (\<lambda>(c, w). c * w) (zip counts weights))"

text \<open>
  \<open>fit_transform\<close> raises \<open>ValueError\<close> (empty vocabulary) when no document yields a token;
  otherwise it returns the fitted vectorizer and the matrix, one row per document.
\<close>

definition fit_transform ::
  "TfidfVectorizer \<Rightarrow> string list \<Rightarrow> exn + (TfidfVectorizer \<times> real list list)" where
  "fit_transform vec raw_documents =
     (let docs = map (build_analyzer (stop_words vec)) raw_documents;
          vocab = sort (remdups (concat docs))
      in if vocab = [] then Inl ValueError
         else (case try_map (smooth_idf docs) vocab of
                 Inl e \<Rightarrow> Inl e
               | Inr weights \<Rightarrow>
                   (case try_map (\<lambda>tokens. tfidf_row weights (count_row vocab tokens)) docs of
                      Inl e \<Rightarrow> Inl e
                    | Inr X \<Rightarrow> Inr (vec\<lparr>vocabulary := Some vocab, idf := weights\<rparr>, X))))"

text \<open>
  \<open>transform\<close> raises \<open>NotFittedError\<close> on a vectorizer without vocabulary; terms outside
  the vocabulary have no column and are not counted.
\<close>

definition transform :: "TfidfVectorizer \<Rightarrow> string list \<Rightarrow> exn + real list list" where
  "transform vec raw_documents =
     (case vocabulary vec of
        None \<Rightarrow> Inl NotFittedError
      | Some vocab \<Rightarrow>
          try_map (\<lambda>doc. tfidf_row (idf vec)
                            (count_row vocab (build_analyzer (stop_words vec) doc)))
                  raw_documents)"

definition dot :: "real list \<Rightarrow> real list \<Rightarrow> real" where
  "dot x y = sum_list (map (\<lambda>(a, b). a * b) (zip x y))"

text \<open>
  \<open>cosine_similarity(X, Y)\<close> normalises the rows of both matrices and returns all the dot
  products. The shapes agree in every state that a build produces.
\<close>

definition cosine_similarity :: "real list list \<Rightarrow> real list list \<Rightarrow> exn + real list list" where
  "cosine_similarity X Y =
     (case try_map normalize_row X of
        Inl e \<Rightarrow> Inl e
      | Inr X_normalized \<Rightarrow>
          (case try_map normalize_row Y of
             Inl e \<Rightarrow> Inl e
           | Inr Y_normalized \<Rightarrow>
               Inr (map (\<lambda>x. map (\<lambda>y. dot x y) Y_normalized) X_normalized)))"

section \<open>The data frame (pandas)\<close>

text \<open>
  A cell of the frame that \<open>pd.read_csv\<close> returns is \<open>NaN\<close> (the field is absent or empty),
  a Python \<open>str\<close>, or a value of another type (a number of a numeric column).
\<close>

datatype cell = NaN | Str string | NonStr

record movie =
  Movie_Name :: cell
  Storyline :: cell

record DataFrame =
  rows :: "movie list"
  Cleaned_Storyline :: "string list option"

text \<open>\<open>dropna(subset=['Storyline'], inplace=True)\<close>.\<close>

definition dropna :: "movie list \<Rightarrow> movie list" where
  "dropna table = [r \<leftarrow> table. Storyline r \<noteq> NaN]"

text \<open>
  \<open>movies_df['Storyline'].apply(clean_text)\<close>: \<open>text.lower()\<close> raises \<open>AttributeError\<close> on a
  cell that is not a \<open>str\<close>.
\<close>

definition apply_clean_text :: "string list \<Rightarrow> movie list \<Rightarrow> exn + string list" where
  "apply_clean_text stopwords table =
     try_map (\<lambda>r. case Storyline r of
                     Str text \<Rightarrow> Inr (clean_text stopwords text)
                   | NaN \<Rightarrow> Inl AttributeError
                   | NonStr \<Rightarrow> Inl AttributeError) table"

text \<open>\<open>df.iloc[indices]\<close> raises \<open>IndexError\<close> on a position outside the frame.\<close>

definition iloc :: "movie list \<Rightarrow> nat list \<Rightarrow> exn + movie list" where
  "iloc table indices =
     (if list_all (\<lambda>i. i < length table) indices
      then Inr (map (\<lambda>i. table ! i) indices) else Inl IndexError)"

section \<open>The engine\<close>

text \<open>
  The environment of the module: the outcome of \<open>pd.read_csv(DATA_FILE)\<close> (an exception or
  the table, which has the columns \<open>Movie Name\<close> and \<open>Storyline\<close>), the NLTK list
  \<open>stopwords.words('english')\<close>, and the stop list that scikit-learn selects for
  \<open>stop_words='english'\<close>.
\<close>

record env =
  read_csv :: "exn + movie list"
  nltk_stopwords :: "string list"
  ENGLISH_STOP_WORDS :: "string list"

text \<open>The three module-level variables.\<close>

record engine =
  movies_df :: "DataFrame option"
  tfidf_vectorizer :: "TfidfVectorizer option"
  tfidf_matrix :: "real list list option"

definition initial_engine :: engine where
  "initial_engine = \<lparr>movies_df = None, tfidf_vectorizer = None, tfidf_matrix = None\<rparr>"

definition RECOMMENDATION_COUNT :: nat where
  "RECOMMENDATION_COUNT = 5"

text \<open>What the two functions print.\<close>

datatype msg =
    DataLoaded
  | NumberOfMovies nat
  | TfidfCreated
  | FileNotFoundMsg
  | RunScraperMsg
  | ErrorOccurred exn
  | NotInitializedMsg

text \<open>
  \<open>load_and_preprocess_data\<close> returns what it printed, its boolean result and the module
  variables as it leaves them. Each assignment to a global takes effect where the source
  makes it, so an exception raised later leaves the earlier assignments in place.
\<close>

definition load_and_preprocess_data :: "env \<Rightarrow> engine \<Rightarrow> msg list \<times> bool \<times> engine" where
  "load_and_preprocess_data ev g =
     (case read_csv ev of
        Inl e \<Rightarrow>
          (if e = FileNotFoundError then ([FileNotFoundMsg, RunScraperMsg], False, g)
           else ([ErrorOccurred e], False, g))
      | Inr table \<Rightarrow>
          (let table = dropna table;
               g = g\<lparr>movies_df := Some \<lparr>rows = table, Cleaned_Storyline = None\<rparr>\<rparr>;
               out = [DataLoaded, NumberOfMovies (length table)]
           in case apply_clean_text (nltk_stopwords ev) table of
                Inl e \<Rightarrow> (out @ [ErrorOccurred e], False, g)
              | Inr cleaned \<Rightarrow>
                  (let g = g\<lparr>movies_df := Some \<lparr>rows = table, Cleaned_Storyline = Some cleaned\<rparr>\<rparr>;
                       vec = new_TfidfVectorizer (ENGLISH_STOP_WORDS ev);
                       g = g\<lparr>tfidf_vectorizer := Some vec\<rparr>
                   in case fit_transform vec cleaned of
                        Inl e \<Rightarrow> (out @ [ErrorOccurred e], False, g)
                      | Inr (vec, X) \<Rightarrow>
                          (out @ [TfidfCreated], True,
                           g\<lparr>tfidf_vectorizer := Some vec, tfidf_matrix := Some X\<rparr>))))"

text \<open>
  \<open>sorted(xs, key=key, reverse=True)\<close>: the list is reversed, sorted stably by the key in
  ascending order, and reversed again.
\<close>

definition sorted_reverse :: "('a \<Rightarrow> 'k::linorder) \<Rightarrow> 'a list \<Rightarrow> 'a list" where
  "sorted_reverse key xs = rev (sort_key key (rev xs))"

text \<open>
  Lines 87 to 104 of \<open>get_recommendations\<close>: the value of the variable
  \<open>similarity_scores\<close> after the sort, pairs of a row position and its score.
\<close>

definition similarity_scores ::
  "string list \<Rightarrow> TfidfVectorizer \<Rightarrow> real list list \<Rightarrow> string \<Rightarrow> exn + (nat \<times> real) list" where
  "similarity_scores stopwords vec mat user_storyline =
     (let user_storyline = preprocess_user_storyline stopwords user_storyline
      in case transform vec [user_storyline] of
           Inl e \<Rightarrow> Inl e
         | Inr user_vector \<Rightarrow>
             (case cosine_similarity user_vector mat of
                Inl e \<Rightarrow> Inl e
              | Inr cosine_sim \<Rightarrow>
                  (case cosine_sim of
                     [] \<Rightarrow> Inl IndexError
                   | row0 # _ \<Rightarrow> Inr (sorted_reverse snd (enumerate 0 row0)))))"

text \<open>
  \<open>get_recommendations\<close> returns what it printed and the list of records, or raises. It
  assigns to no global.
\<close>

definition get_recommendations :: "env \<Rightarrow> engine \<Rightarrow> string \<Rightarrow> exn + (msg list \<times> movie list)" where
  "get_recommendations ev g user_storyline =
     (if movies_df g = None \<or> tfidf_vectorizer g = None \<or> tfidf_matrix g = None
      then Inr ([NotInitializedMsg], [])
      else (case similarity_scores (nltk_stopwords ev) (the (tfidf_vectorizer g))
                   (the (tfidf_matrix g)) user_storyline of
              Inl e \<Rightarrow> Inl e
            | Inr scores \<Rightarrow>
                (let top_indices = map fst (take RECOMMENDATION_COUNT scores)
                 in case iloc (rows (the (movies_df g))) top_indices of
                      Inl e \<Rightarrow> Inl e
                    | Inr recommended_movies \<Rightarrow> Inr ([], recommended_movies))))"

section \<open>Specification functions\<close>

text \<open>
  The functions of this section are not translations of source code. They name the values
  that the model computes, so that the theorems can speak about them.
\<close>

subsection \<open>Outcomes of the checked computations\<close>

text \<open>
  The result of \<open>normalize_row\<close>, of \<open>tfidf_row\<close> on the counts of a token list, of the
  weights and of the vocabulary that \<open>fit_transform\<close> computes.
\<close>

definition unit_row :: "real list \<Rightarrow> real list" where
  "unit_row row =
     (let s = sum_list (map (\<lambda>x. x * x) row)
      in if s = 0 then row else map (\<lambda>x. x / sqrt s) row)"

definition weigh :: "string list \<Rightarrow> real list \<Rightarrow> string list \<Rightarrow> real list" where
  "weigh vocab weights tokens =
     unit_row (map (\<lambda>(c, w). c * w) (zip (count_row vocab tokens) weights))"

definition idf_of :: "string list list \<Rightarrow> string list \<Rightarrow> real list" where
  "idf_of docs vocab =
     map (\<lambda>t. ln ((1 + real (length docs)) / (1 + real (document_frequency docs t))) + 1) vocab"

definition vocabulary_of :: "string list list \<Rightarrow> string list" where
  "vocabulary_of docs = sort (remdups (concat docs))"

text \<open>The sum of the squares of a row, and its Euclidean norm.\<close>

definition sum_sq :: "real list \<Rightarrow> real" where
  "sum_sq row = sum_list (map (\<lambda>x. x * x) row)"

definition l2_norm :: "real list \<Rightarrow> real" where
  "l2_norm row = sqrt (sum_sq row)"

subsection \<open>The state that a successful build leaves\<close>

text \<open>
  \<open>cleaned_of\<close> is the column \<open>Cleaned Storyline\<close>, \<open>docs_of\<close> the token lists that the
  analyzer of the vectorizer makes of it, \<open>built_engine\<close> the three globals after a build
  that succeeds.
\<close>

definition is_str :: "cell \<Rightarrow> bool" where
  "is_str c = (case c of Str text \<Rightarrow> True | NaN \<Rightarrow> False | NonStr \<Rightarrow> False)"

definition text_of :: "cell \<Rightarrow> string" where
  "text_of c = (case c of Str text \<Rightarrow> text | NaN \<Rightarrow> [] | NonStr \<Rightarrow> [])"

definition cleaned_of :: "env \<Rightarrow> movie list \<Rightarrow> string list" where
  "cleaned_of ev table =
     map (\<lambda>r. clean_text (nltk_stopwords ev) (text_of (Storyline r))) (dropna table)"

definition docs_of :: "env \<Rightarrow> movie list \<Rightarrow> string list list" where
  "docs_of ev table = map (build_analyzer (ENGLISH_STOP_WORDS ev)) (cleaned_of ev table)"

definition built_engine :: "env \<Rightarrow> movie list \<Rightarrow> engine" where
  "built_engine ev table =
     (let docs = docs_of ev table; vocab = vocabulary_of docs; weights = idf_of docs vocab
      in \<lparr>movies_df = Some \<lparr>rows = dropna table, Cleaned_Storyline = Some (cleaned_of ev table)\<rparr>,
          tfidf_vectorizer =
            Some \<lparr>stop_words = ENGLISH_STOP_WORDS ev, vocabulary = Some vocab, idf = weights\<rparr>,
          tfidf_matrix = Some (map (weigh vocab weights) docs)\<rparr>)"

subsection \<open>The ranking\<close>

text \<open>
  \<open>ranks_before p q\<close>: the pair \<open>p\<close> of a row position and a score precedes \<open>q\<close> in a
  ranking by descending score in which equal scores keep the order of the rows.
\<close>

definition ranks_before :: "nat \<times> real \<Rightarrow> nat \<times> real \<Rightarrow> bool" where
  "ranks_before p q = (snd q < snd p \<or> (snd p = snd q \<and> fst p < fst q))"

text \<open>
  The vector of a query, its scores against the rows of the matrix, and its ranking, for a
  fitted vectorizer.
\<close>

definition query_vector :: "string list \<Rightarrow> TfidfVectorizer \<Rightarrow> string \<Rightarrow> real list" where
  "query_vector stopwords vec user_storyline =
     weigh (the (vocabulary vec)) (idf vec)
       (build_analyzer (stop_words vec) (preprocess_user_storyline stopwords user_storyline))"

definition scores_of :: "string list \<Rightarrow> TfidfVectorizer \<Rightarrow> real list list \<Rightarrow> string \<Rightarrow> real list" where
  "scores_of stopwords vec mat user_storyline =
     map (\<lambda>y. dot (unit_row (query_vector stopwords vec user_storyline)) y) (map unit_row mat)"

definition ranking_of ::
  "string list \<Rightarrow> TfidfVectorizer \<Rightarrow> real list list \<Rightarrow> string \<Rightarrow> (nat \<times> real) list" where
  "ranking_of stopwords vec mat user_storyline =
     sorted_reverse snd (enumerate 0 (scores_of stopwords vec mat user_storyline))"

subsection \<open>Words and tokens\<close>

text \<open>
  The words of a storyline after lowercasing and deletion of special characters, and the
  tokens that remain of them: those on neither stop list that have two characters or more.
\<close>

definition words_of :: "string \<Rightarrow> string list" where
  "words_of text = str_split (re_sub_special (str_lower text))"

definition effective_tokens :: "env \<Rightarrow> string \<Rightarrow> string list" where
  "effective_tokens ev text =
     [w \<leftarrow> words_of text.
        w \<notin> set (nltk_stopwords ev) \<and> w \<notin> set (ENGLISH_STOP_WORDS ev) \<and> 2 \<le> length w]"

subsection \<open>Builds in sequence\<close>

text \<open>
  \<open>run_builds\<close> calls \<open>load_and_preprocess_data\<close> once per environment of the list, each
  call on the state the previous one left. \<open>build_succeeds\<close> is the result of a call on the
  fresh module.
\<close>

fun run_builds :: "env list \<Rightarrow> engine \<Rightarrow> engine" where
  "run_builds [] g = g"
| "run_builds (ev # evs) g = run_builds evs (snd (snd (load_and_preprocess_data ev g)))"

definition build_succeeds :: "env \<Rightarrow> bool" where
  "build_succeeds ev = fst (snd (load_and_preprocess_data ev initial_engine))"

section \<open>Example environments\<close>

text \<open>
  The two-movie corpus of the specification. The stop lists of the examples are short
  excerpts of the two real lists.
\<close>

definition example_table :: "movie list" where
  "example_table =
     [\<lparr>Movie_Name = Str ''A'', Storyline = Str ''a wizard battles a dragon''\<rparr>,
      \<lparr>Movie_Name = Str ''B'', Storyline = Str ''a detective solves a murder''\<rparr>]"

definition example_env :: env where
  "example_env =
     \<lparr>read_csv = Inr example_table,
      nltk_stopwords = [''a'', ''the''],
      ENGLISH_STOP_WORDS = [''a'', ''an'']\<rparr>"

text \<open>The state in which the two-movie corpus has been built.\<close>

definition example_engine :: engine where
  "example_engine = snd (snd (load_and_preprocess_data example_env initial_engine))"

text \<open>A corpus whose only storyline is the single letter \<open>x\<close>.\<close>

definition single_letter_table :: "movie list" where
  "single_letter_table = [\<lparr>Movie_Name = Str ''A'', Storyline = Str ''x''\<rparr>]"

definition single_letter_env :: env where
  "single_letter_env =
     \<lparr>read_csv = Inr single_letter_table,
      nltk_stopwords = [''a'', ''the''],
      ENGLISH_STOP_WORDS = [''a'', ''an'']\<rparr>"

text \<open>A source without usable documents, and a source that cannot be found.\<close>

definition empty_corpus_env :: env where
  "empty_corpus_env =
     \<lparr>read_csv = Inr [\<lparr>Movie_Name = Str ''C'', Storyline = NaN\<rparr>],
      nltk_stopwords = [''a'', ''the''],
      ENGLISH_STOP_WORDS = [''a'', ''an'']\<rparr>"

definition missing_file_env :: env where
  "missing_file_env =
     \<lparr>read_csv = Inl FileNotFoundError,
      nltk_stopwords = [''a'', ''the''],
      ENGLISH_STOP_WORDS = [''a'', ''an'']\<rparr>"

text \<open>A table in which one record has no storyline.\<close>

definition gap_table :: "movie list" where
  "gap_table =
     [\<lparr>Movie_Name = Str ''C'', Storyline = NaN\<rparr>,
      \<lparr>Movie_Name = Str ''A'', Storyline = Str ''a wizard battles a dragon''\<rparr>]"

definition gap_env :: env where
  "gap_env =
     \<lparr>read_csv = Inr gap_table,
      nltk_stopwords = [''a'', ''the''],
      ENGLISH_STOP_WORDS = [''a'', ''an'']\<rparr>"

text \<open>A storyline with a one-letter word.\<close>

definition planet_text :: string where
  "planet_text = ''Planet X''"

section \<open>Scoring in 64-bit floating point\<close>

text \<open>
  scikit-learn computes the weights and the scores in IEEE 754 binary64. Every operation
  returns the double nearest to the exact result, ties to the even mantissa. \<open>round64\<close> is
  this rounding for results below the overflow threshold: \<open>e\<close> is the binary exponent of
  \<open>x\<close>, not below that of the smallest normal number, and the doubles near \<open>x\<close> are the
  multiples of \<open>pow2 (e - 52)\<close>.
\<close>

definition pow2 :: "int \<Rightarrow> real" where
  "pow2 k = (if 0 \<le> k then 2 ^ nat k else 1 / 2 ^ nat (- k))"

















section \<open>The checked computations never raise\<close>

text \<open>
  The divisors of the model are never zero: each checked computation returns the value
  that the corresponding specification function names.
\<close>

lemma try_map_total:
  "(\<And>x. x \<in> set xs \<Longrightarrow> f x = Inr (h x)) \<Longrightarrow> try_map f xs = Inr (map h xs)"
  by (induction xs) auto

lemma try_map_length: "try_map f xs = Inr ys \<Longrightarrow> length ys = length xs"
  by (induction xs arbitrary: ys) (auto split: sum.splits)

lemma normalize_row_total: "normalize_row row = Inr (unit_row row)"
proof (cases "sum_list (map (\<lambda>x. x * x) row) = 0")
  case True
  then show ?thesis by (simp add: normalize_row_def unit_row_def)
next
  case False
  then have "sqrt (sum_list (map (\<lambda>x. x * x) row)) \<noteq> 0" by simp
  then have "try_map (\<lambda>x. checked_div x (sqrt (sum_list (map (\<lambda>x. x * x) row)))) row
             = Inr (map (\<lambda>x. x / sqrt (sum_list (map (\<lambda>x. x * x) row))) row)"
    by (intro try_map_total) (simp add: checked_div_def)
  with False show ?thesis by (simp add: normalize_row_def unit_row_def Let_def)
qed

lemma smooth_idf_total:
  "smooth_idf docs t = Inr (ln ((1 + real (length docs)) / (1 + real (document_frequency docs t))) + 1)"
proof -
  have "1 + real (document_frequency docs t) \<noteq> 0"
    by (metis add_nonneg_pos less_numeral_extra(1) of_nat_0_le_iff add.commute less_irrefl)
  then show ?thesis by (simp add: smooth_idf_def checked_div_def)
qed

lemma tfidf_row_total: "tfidf_row weights (count_row vocab tokens) = Inr (weigh vocab weights tokens)"
  by (simp add: tfidf_row_def weigh_def normalize_row_total)

lemma fit_transform_eq:
  "fit_transform vec raw =
     (let docs = map (build_analyzer (stop_words vec)) raw; vocab = vocabulary_of docs
      in if vocab = [] then Inl ValueError
         else Inr (vec\<lparr>vocabulary := Some vocab, idf := idf_of docs vocab\<rparr>,
                   map (weigh vocab (idf_of docs vocab)) docs))"
proof -
  have a: "try_map (smooth_idf docs) vocab = Inr (idf_of docs vocab)" for docs vocab
    unfolding idf_of_def by (intro try_map_total) (simp add: smooth_idf_total)
  have b: "try_map (\<lambda>tokens. tfidf_row w (count_row vocab tokens)) docs
           = Inr (map (weigh vocab w) docs)" for w vocab docs
    by (intro try_map_total) (simp add: tfidf_row_total)
  show ?thesis
    by (simp add: fit_transform_def Let_def a b vocabulary_of_def)
qed

lemma transform_eq:
  "transform vec raw =
     (case vocabulary vec of None \<Rightarrow> Inl NotFittedError
      | Some vocab \<Rightarrow> Inr (map (\<lambda>doc. weigh vocab (idf vec) (build_analyzer (stop_words vec) doc)) raw))"
proof (cases "vocabulary vec")
  case None
  then show ?thesis by (simp add: transform_def)
next
  case (Some vocab)
  have "try_map (\<lambda>doc. tfidf_row (idf vec) (count_row vocab (build_analyzer (stop_words vec) doc))) raw
        = Inr (map (\<lambda>doc. weigh vocab (idf vec) (build_analyzer (stop_words vec) doc)) raw)"
    by (intro try_map_total) (simp add: tfidf_row_total)
  with Some show ?thesis by (simp add: transform_def)
qed

lemma cosine_similarity_eq:
  "cosine_similarity X Y = Inr (map (\<lambda>x. map (\<lambda>y. dot x y) (map unit_row Y)) (map unit_row X))"
proof -
  have "try_map normalize_row Z = Inr (map unit_row Z)" for Z
    by (intro try_map_total) (simp add: normalize_row_total)
  then show ?thesis by (simp add: cosine_similarity_def)
qed

section \<open>The four outcomes of a build\<close>

text \<open>
  \<open>load_and_preprocess_data\<close> ends in one of four ways: the source cannot be read, a
  storyline is not a string, the vocabulary is empty, or the build succeeds.
\<close>

lemma apply_clean_text_eq:
  "apply_clean_text sw table =
     (if list_all (\<lambda>r. is_str (Storyline r)) table
      then Inr (map (\<lambda>r. clean_text sw (text_of (Storyline r))) table)
      else Inl AttributeError)"
proof (induction table)
  case Nil
  then show ?case by (simp add: apply_clean_text_def)
next
  case (Cons r table)
  then show ?case
    by (cases "Storyline r") (auto simp: apply_clean_text_def is_str_def text_of_def)
qed

lemma load_read_failure:
  "read_csv ev = Inl e \<Longrightarrow>
   load_and_preprocess_data ev g =
     (if e = FileNotFoundError then [FileNotFoundMsg, RunScraperMsg] else [ErrorOccurred e], False, g)"
  by (simp add: load_and_preprocess_data_def)

lemma load_attribute_failure:
  "read_csv ev = Inr table \<Longrightarrow> \<not> list_all (\<lambda>r. is_str (Storyline r)) (dropna table) \<Longrightarrow>
   load_and_preprocess_data ev g =
     ([DataLoaded, NumberOfMovies (length (dropna table)), ErrorOccurred AttributeError], False,
      g\<lparr>movies_df := Some \<lparr>rows = dropna table, Cleaned_Storyline = None\<rparr>\<rparr>)"
  by (simp add: load_and_preprocess_data_def apply_clean_text_eq Let_def)

lemma load_empty_vocabulary:
  "read_csv ev = Inr table \<Longrightarrow> list_all (\<lambda>r. is_str (Storyline r)) (dropna table) \<Longrightarrow>
   vocabulary_of (docs_of ev table) = [] \<Longrightarrow>
   load_and_preprocess_data ev g =
     ([DataLoaded, NumberOfMovies (length (dropna table)), ErrorOccurred ValueError], False,
      g\<lparr>movies_df := Some \<lparr>rows = dropna table, Cleaned_Storyline = Some (cleaned_of ev table)\<rparr>,
        tfidf_vectorizer := Some (new_TfidfVectorizer (ENGLISH_STOP_WORDS ev))\<rparr>)"
  by (simp add: load_and_preprocess_data_def apply_clean_text_eq Let_def fit_transform_eq
      docs_of_def cleaned_of_def new_TfidfVectorizer_def)

lemma load_success:
  "read_csv ev = Inr table \<Longrightarrow> list_all (\<lambda>r. is_str (Storyline r)) (dropna table) \<Longrightarrow>
   vocabulary_of (docs_of ev table) \<noteq> [] \<Longrightarrow>
   load_and_preprocess_data ev g =
     ([DataLoaded, NumberOfMovies (length (dropna table)), TfidfCreated], True, built_engine ev table)"
  by (simp add: load_and_preprocess_data_def apply_clean_text_eq Let_def fit_transform_eq
      docs_of_def cleaned_of_def new_TfidfVectorizer_def built_engine_def)

lemma load_True_D:
  assumes "load_and_preprocess_data ev g = (out, True, g')"
  shows "\<exists>table. read_csv ev = Inr table \<and> list_all (\<lambda>r. is_str (Storyline r)) (dropna table)
           \<and> vocabulary_of (docs_of ev table) \<noteq> [] \<and> g' = built_engine ev table"
proof (cases "read_csv ev")
  case (Inl e)
  with assms show ?thesis by (simp add: load_read_failure split: if_splits)
next
  case (Inr table)
  show ?thesis
  proof (cases "list_all (\<lambda>r. is_str (Storyline r)) (dropna table)")
    case False
    with Inr assms show ?thesis by (simp add: load_attribute_failure)
  next
    case True
    show ?thesis
    proof (cases "vocabulary_of (docs_of ev table) = []")
      case e: True
      with Inr True assms show ?thesis by (simp add: load_empty_vocabulary)
    next
      case False
      with Inr True assms show ?thesis by (simp add: load_success)
    qed
  qed
qed

section \<open>The descending stable sort\<close>

text \<open>
  \<open>sorted_reverse\<close> on pairs whose first components increase orders them by
  \<open>ranks_before\<close>; it keeps the elements, and it keeps a list whose keys are all equal.
\<close>

lemma insort_key_ranks:
  assumes "sorted_wrt (\<lambda>a b. ranks_before b a) zs" and "\<And>p. p \<in> set zs \<Longrightarrow> fst p < fst y"
  shows "sorted_wrt (\<lambda>a b. ranks_before b a) (insort_key snd y zs)"
  using assms
proof (induction zs)
  case Nil
  then show ?case by simp
next
  case (Cons z zs)
  have le: "snd z \<le> snd p" if "p \<in> set zs" for p
    using Cons.prems(1) that by (auto simp: ranks_before_def)
  show ?case
  proof (cases "snd y \<le> snd z")
    case True
    have "ranks_before p y" if "p \<in> set (z # zs)" for p
      using that True le Cons.prems(2)[of p] by (fastforce simp: ranks_before_def)
    with True Cons.prems(1) show ?thesis by simp
  next
    case False
    then have "ranks_before y z" by (simp add: ranks_before_def)
    moreover have "sorted_wrt (\<lambda>a b. ranks_before b a) (insort_key snd y zs)"
      using Cons by simp
    ultimately show ?thesis
      using False Cons.prems(1) by (auto simp: set_insort_key)
  qed
qed

lemma sort_key_ranks:
  "sorted_wrt (>) (map fst ys) \<Longrightarrow> sorted_wrt (\<lambda>a b. ranks_before b a) (sort_key snd ys)"
proof (induction ys)
  case Nil
  then show ?case by simp
next
  case (Cons y ys)
  then have "sorted_wrt (\<lambda>a b. ranks_before b a) (sort_key snd ys)" by simp
  moreover have "fst p < fst y" if "p \<in> set (sort_key snd ys)" for p
    using that Cons.prems by auto
  ultimately have "sorted_wrt (\<lambda>a b. ranks_before b a) (insort_key snd y (sort_key snd ys))"
    by (rule insort_key_ranks)
  then show ?case by simp
qed

lemma sorted_reverse_ranks:
  assumes "sorted_wrt (<) (map fst xs)"
  shows "sorted_wrt ranks_before (sorted_reverse snd xs)"
proof -
  have "sorted_wrt (>) (map fst (rev xs))"
    using assms by (simp add: rev_map[symmetric] sorted_wrt_rev)
  then have "sorted_wrt (\<lambda>a b. ranks_before b a) (sort_key snd (rev xs))"
    by (rule sort_key_ranks)
  then show ?thesis
    by (simp add: sorted_reverse_def sorted_wrt_rev)
qed

lemma sorted_reverse_enumerate_ranks:
  "sorted_wrt ranks_before (sorted_reverse snd (enumerate n xs))"
  by (rule sorted_reverse_ranks) (simp add: map_fst_enumerate sorted_wrt_upt)

lemma mset_sorted_reverse: "mset (sorted_reverse key xs) = mset xs"
  by (simp add: sorted_reverse_def)

lemma set_sorted_reverse: "set (sorted_reverse key xs) = set xs"
  by (simp add: sorted_reverse_def)

lemma length_sorted_reverse: "length (sorted_reverse key xs) = length xs"
  by (simp add: sorted_reverse_def)

lemma sort_key_constant:
  assumes "\<And>x. x \<in> set xs \<Longrightarrow> key x = k"
  shows "sort_key key xs = xs"
proof -
  have "filter (\<lambda>y. key y = k) (sort_key key xs) = filter (\<lambda>y. key y = k) xs"
    by (rule sort_key_stable)
  moreover have "filter (\<lambda>y. key y = k) (sort_key key xs) = sort_key key xs"
    using assms by (intro filter_True) simp
  moreover have "filter (\<lambda>y. key y = k) xs = xs"
    using assms by (intro filter_True) simp
  ultimately show ?thesis by simp
qed

lemma sorted_reverse_constant:
  assumes "\<And>x. x \<in> set xs \<Longrightarrow> key x = k"
  shows "sorted_reverse key xs = xs"
proof -
  have "sort_key key (rev xs) = rev xs"
    by (rule sort_key_constant[where k = k]) (simp add: assms)
  then show ?thesis by (simp add: sorted_reverse_def)
qed

section \<open>A query against a fitted vectorizer\<close>

text \<open>
  What \<open>transform\<close>, \<open>similarity_scores\<close> and \<open>get_recommendations\<close> return once the
  vectorizer has a vocabulary, and what they return before.
\<close>

lemma transform_query:
  "vocabulary vec = Some vocab \<Longrightarrow>
   transform vec [preprocess_user_storyline sw q] = Inr [query_vector sw vec q]"
  by (simp add: transform_eq query_vector_def)

lemma similarity_scores_fitted:
  "vocabulary vec = Some vocab \<Longrightarrow>
   similarity_scores sw vec mat q = Inr (ranking_of sw vec mat q)"
  by (simp add: similarity_scores_def transform_query cosine_similarity_eq ranking_of_def
      scores_of_def)

lemma similarity_scores_unfitted:
  "vocabulary vec = None \<Longrightarrow> similarity_scores sw vec mat q = Inl NotFittedError"
  by (simp add: similarity_scores_def transform_eq)

lemma length_ranking_of [simp]: "length (ranking_of sw vec mat q) = length mat"
  by (simp add: ranking_of_def length_sorted_reverse scores_of_def)

lemma fst_ranking_of:
  "p \<in> set (ranking_of sw vec mat q) \<Longrightarrow> fst p < length mat"
  by (auto simp: ranking_of_def set_sorted_reverse scores_of_def in_set_enumerate_eq)

lemma built_engine_sel:
  "movies_df (built_engine ev table)
     = Some \<lparr>rows = dropna table, Cleaned_Storyline = Some (cleaned_of ev table)\<rparr>"
  "tfidf_vectorizer (built_engine ev table)
     = Some \<lparr>stop_words = ENGLISH_STOP_WORDS ev,
             vocabulary = Some (vocabulary_of (docs_of ev table)),
             idf = idf_of (docs_of ev table) (vocabulary_of (docs_of ev table))\<rparr>"
  "tfidf_matrix (built_engine ev table)
     = Some (map (weigh (vocabulary_of (docs_of ev table))
                    (idf_of (docs_of ev table) (vocabulary_of (docs_of ev table))))
               (docs_of ev table))"
  by (simp_all add: built_engine_def Let_def)

lemma length_docs_of [simp]: "length (docs_of ev table) = length (dropna table)"
  by (simp add: docs_of_def cleaned_of_def)

lemma get_recommendations_consistent:
  assumes "movies_df g = Some df" and "tfidf_vectorizer g = Some vec" and "tfidf_matrix g = Some mat"
    and "vocabulary vec = Some vocab" and "length mat = length (rows df)"
  shows "get_recommendations ev g q =
           Inr ([], map (\<lambda>p. rows df ! fst p)
                      (take RECOMMENDATION_COUNT (ranking_of (nltk_stopwords ev) vec mat q)))"
proof -
  have "list_all (\<lambda>i. i < length (rows df))
          (map fst (take RECOMMENDATION_COUNT (ranking_of (nltk_stopwords ev) vec mat q)))"
    using assms(5) by (auto simp: list_all_iff dest!: in_set_takeD fst_ranking_of)
  then show ?thesis
    using assms
    by (simp add: get_recommendations_def similarity_scores_fitted iloc_def comp_def)
qed

lemma get_recommendations_uninitialized:
  "movies_df g = None \<or> tfidf_vectorizer g = None \<or> tfidf_matrix g = None \<Longrightarrow>
   get_recommendations ev g q = Inr ([NotInitializedMsg], [])"
  by (simp add: get_recommendations_def)

lemma get_recommendations_unfitted:
  "movies_df g = Some df \<Longrightarrow> tfidf_vectorizer g = Some vec \<Longrightarrow> tfidf_matrix g = Some mat \<Longrightarrow>
   vocabulary vec = None \<Longrightarrow> get_recommendations ev g q = Inl NotFittedError"
  by (simp add: get_recommendations_def similarity_scores_unfitted)

section \<open>The build of the two-movie corpus\<close>

text \<open>
  The token lists of the two example storylines, and the build of the example
  environment from any state.
\<close>

lemmas text_simps =
  clean_text_def preprocess_user_storyline_def str_lower_def lower_char_def re_sub_special_def
  str_split_def isspace_def build_analyzer_def tokenize_def is_word_char_def

lemma example_docs:
  "docs_of example_env example_table
     = [[''wizard'', ''battles'', ''dragon''], [''detective'', ''solves'', ''murder'']]"
  by (simp add: docs_of_def cleaned_of_def example_env_def example_table_def dropna_def
      text_of_def text_simps)

lemma example_load:
  "load_and_preprocess_data example_env g =
     ([DataLoaded, NumberOfMovies 2, TfidfCreated], True, built_engine example_env example_table)"
proof -
  have "read_csv example_env = Inr example_table"
    by (simp add: example_env_def)
  moreover have "list_all (\<lambda>r. is_str (Storyline r)) (dropna example_table)"
    by (simp add: example_table_def dropna_def is_str_def)
  moreover have "vocabulary_of (docs_of example_env example_table) \<noteq> []"
    by (simp add: example_docs vocabulary_of_def)
  moreover have "length (dropna example_table) = 2"
    by (simp add: example_table_def dropna_def)
  ultimately show ?thesis
    using load_success[of example_env example_table g] by simp
qed

section \<open>Norms and dot products\<close>

text \<open>
  The sum of squares of a normalised row is 0 or 1, and the dot product with a row whose
  sum of squares is 0 is 0.
\<close>

lemma sum_sq_simps [simp]: "sum_sq [] = 0" "sum_sq (x # xs) = x * x + sum_sq xs"
  by (simp_all add: sum_sq_def)

lemma sum_sq_nonneg: "0 \<le> sum_sq xs"
  by (induction xs) simp_all

lemma sum_sq_zero_D: "sum_sq xs = 0 \<Longrightarrow> x \<in> set xs \<Longrightarrow> x = 0"
proof (induction xs)
  case Nil
  then show ?case by simp
next
  case (Cons y ys)
  have "0 \<le> y * y" by simp
  with Cons.prems(1) sum_sq_nonneg[of ys] have "y * y = 0" "sum_sq ys = 0"
    by (simp_all add: add_nonneg_eq_0_iff)
  with Cons show ?case by auto
qed

lemma l2_norm_zero_iff: "l2_norm row = 0 \<longleftrightarrow> sum_sq row = 0"
  by (simp add: l2_norm_def)

lemma unit_row_alt:
  "unit_row row = (if sum_sq row = 0 then row else map (\<lambda>x. x / sqrt (sum_sq row)) row)"
  by (simp add: unit_row_def sum_sq_def Let_def)

lemma sum_sq_scale: "sum_sq (map (\<lambda>x. x / c) xs) = sum_sq xs / (c * c)"
  by (induction xs) (simp_all add: add_divide_distrib)

lemma sum_sq_unit_row: "sum_sq (unit_row row) = (if sum_sq row = 0 then 0 else 1)"
proof (cases "sum_sq row = 0")
  case True
  then show ?thesis by (simp add: unit_row_alt)
next
  case False
  with sum_sq_nonneg[of row] have "0 < sum_sq row" by simp
  then have "sqrt (sum_sq row) * sqrt (sum_sq row) = sum_sq row" by simp
  with False show ?thesis by (simp add: unit_row_alt sum_sq_scale)
qed

lemma dot_simps [simp]:
  "dot [] ys = 0" "dot xs [] = 0" "dot (x # xs) (y # ys) = x * y + dot xs ys"
  by (simp_all add: dot_def)

lemma dot_zero_left: "sum_sq xs = 0 \<Longrightarrow> dot xs ys = 0"
proof (induction xs arbitrary: ys)
  case Nil
  then show ?case by simp
next
  case (Cons x xs)
  have "0 \<le> x * x" by simp
  with Cons.prems sum_sq_nonneg[of xs] have z: "x * x = 0" "sum_sq xs = 0"
    by (simp_all add: add_nonneg_eq_0_iff)
  with Cons.IH show ?case by (cases ys) simp_all
qed

lemma dot_commute: "dot xs ys = dot ys xs"
proof (induction xs arbitrary: ys)
  case Nil
  then show ?case by simp
next
  case (Cons x xs)
  then show ?case by (cases ys) simp_all
qed

lemma dot_zero_right: "sum_sq ys = 0 \<Longrightarrow> dot xs ys = 0"
  by (simp add: dot_commute[of xs ys] dot_zero_left)

section \<open>Members and order of a ranking\<close>

text \<open>
  A ranking holds each row position with its score, in the order \<open>ranks_before\<close>.
\<close>

lemma preprocess_user_storyline_eq:
  "preprocess_user_storyline sw text = clean_text sw text"
  by (simp add: preprocess_user_storyline_def clean_text_def)

lemma ranking_of_member:
  "p \<in> set (ranking_of sw vec mat q) \<longleftrightarrow>
     fst p < length mat \<and>
     snd p = dot (unit_row (query_vector sw vec q)) (unit_row (mat ! fst p))"
  by (auto simp: ranking_of_def set_sorted_reverse scores_of_def in_set_enumerate_eq)

lemma ranking_of_sorted: "sorted_wrt ranks_before (ranking_of sw vec mat q)"
  by (simp add: ranking_of_def sorted_reverse_enumerate_ranks)

section \<open>Tokens outside the vocabulary\<close>

text \<open>
  A token list that shares no term with the vocabulary gives the zero vector.
\<close>

lemma example_vocabulary:
  "vocabulary_of (docs_of example_env example_table)
     = [''battles'', ''detective'', ''dragon'', ''murder'', ''solves'', ''wizard'']"
  by (simp add: example_docs vocabulary_of_def)

lemma sum_sq_zero_I: "(\<And>x. x \<in> set xs \<Longrightarrow> x = 0) \<Longrightarrow> sum_sq xs = 0"
  by (induction xs) simp_all

lemma weigh_out_of_vocabulary:
  assumes "set tokens \<inter> set vocab = {}"
  shows "sum_sq (weigh vocab weights tokens) = 0"
proof -
  have "count_list tokens t = 0" if "t \<in> set vocab" for t
    using that assms by (auto simp: count_list_0_iff)
  then have "x = 0" if "x \<in> set (count_row vocab tokens)" for x
    using that by (auto simp: count_row_def)
  then have "sum_sq (map (\<lambda>(c, w). c * w) (zip (count_row vocab tokens) weights)) = 0"
    by (intro sum_sq_zero_I) (auto dest: set_zip_leftD)
  then show ?thesis by (simp add: weigh_def sum_sq_unit_row)
qed

lemma example_zebra_tokens:
  "build_analyzer (ENGLISH_STOP_WORDS example_env)
     (preprocess_user_storyline (nltk_stopwords example_env) ''zebra'') = [''zebra'']"
  by (simp add: example_env_def text_simps)

lemma example_zebra_norm:
  "l2_norm (query_vector (nltk_stopwords example_env)
      (the (tfidf_vectorizer (built_engine example_env example_table))) ''zebra'') = 0"
proof -
  have "set [''zebra''] \<inter> set (vocabulary_of (docs_of example_env example_table)) = {}"
    by (simp add: example_vocabulary)
  then show ?thesis
    by (simp add: built_engine_sel query_vector_def l2_norm_zero_iff example_zebra_tokens
        weigh_out_of_vocabulary del: set_simps)
qed

section \<open>The empty vocabulary\<close>

text \<open>
  The vocabulary is empty exactly when every document has no token; the single-letter
  corpus is such a case.
\<close>

lemma set_vocabulary_of: "set (vocabulary_of docs) = \<Union> (set ` set docs)"
  by (simp add: vocabulary_of_def)

lemma vocabulary_of_empty_iff: "vocabulary_of docs = [] \<longleftrightarrow> (\<forall>d \<in> set docs. d = [])"
proof -
  have "vocabulary_of docs = [] \<longleftrightarrow> set (vocabulary_of docs) = {}"
    by (simp only: set_empty)
  then show ?thesis by (simp add: set_vocabulary_of)
qed

lemma single_letter_load:
  "load_and_preprocess_data single_letter_env g =
     ([DataLoaded, NumberOfMovies 1, ErrorOccurred ValueError], False,
      g\<lparr>movies_df := Some \<lparr>rows = single_letter_table, Cleaned_Storyline = Some [''x'']\<rparr>,
        tfidf_vectorizer := Some (new_TfidfVectorizer [''a'', ''an''])\<rparr>)"
proof -
  have r: "read_csv single_letter_env = Inr single_letter_table"
    by (simp add: single_letter_env_def)
  have d: "dropna single_letter_table = single_letter_table"
    by (simp add: single_letter_table_def dropna_def)
  have s: "list_all (\<lambda>r. is_str (Storyline r)) (dropna single_letter_table)"
    by (simp add: single_letter_table_def dropna_def is_str_def)
  have c: "cleaned_of single_letter_env single_letter_table = [''x'']"
    by (simp add: cleaned_of_def single_letter_env_def single_letter_table_def dropna_def
        text_of_def text_simps)
  have v: "vocabulary_of (docs_of single_letter_env single_letter_table) = []"
    by (simp add: vocabulary_of_empty_iff docs_of_def c text_simps)
  have e: "ENGLISH_STOP_WORDS single_letter_env = [''a'', ''an'']"
    by (simp add: single_letter_env_def)
  have n: "length single_letter_table = 1"
    by (simp add: single_letter_table_def)
  show ?thesis
    using load_empty_vocabulary[OF r s v, of g] by (simp add: d c e n)
qed


section \<open>Blank text\<close>

text \<open>
  A text of whitespace has no word, its query vector is zero, and the ranking of a zero
  query is the list of the rows in their order.
\<close>

lemma lower_char_isspace: "isspace c \<Longrightarrow> lower_char c = c"
  by (auto simp: isspace_def lower_char_def)

lemma split_on_all_separators: "list_all sep xs \<Longrightarrow> split_on sep xs = []"
  by (induction xs) simp_all

lemma clean_text_blank:
  assumes "list_all isspace text"
  shows "clean_text sw text = []"
proof -
  from assms have "str_lower text = text"
    by (simp add: str_lower_def list_all_iff lower_char_isspace map_idI)
  moreover from assms have "re_sub_special text = text"
    by (simp add: re_sub_special_def list_all_iff)
  ultimately show ?thesis
    using assms by (simp add: clean_text_def str_split_def split_on_all_separators)
qed

lemma build_analyzer_Nil: "build_analyzer stop [] = []"
  by (simp add: build_analyzer_def tokenize_def str_lower_def)

lemma query_vector_blank:
  "list_all isspace q \<Longrightarrow> sum_sq (unit_row (query_vector sw vec q)) = 0"
  by (simp add: query_vector_def preprocess_user_storyline_eq clean_text_blank
      build_analyzer_Nil weigh_out_of_vocabulary sum_sq_unit_row)

lemma ranking_of_zero_query:
  assumes "sum_sq (unit_row (query_vector sw vec q)) = 0"
  shows "ranking_of sw vec mat q = enumerate 0 (scores_of sw vec mat q)"
proof -
  have "snd p = 0" if "p \<in> set (enumerate 0 (scores_of sw vec mat q))" for p
    using that assms by (auto simp: scores_of_def in_set_enumerate_eq dot_zero_left)
  then show ?thesis
    unfolding ranking_of_def by (rule sorted_reverse_constant)
qed

lemma rows_of_enumerate:
  assumes "length scores = length table"
  shows "map (\<lambda>p. table ! fst p) (take k (enumerate 0 scores)) = take k table"
proof -
  have "map (\<lambda>p. table ! fst p) (enumerate 0 scores)
          = map ((!) table) (map fst (enumerate 0 scores))"
    by (simp only: map_map comp_def)
  also have "map fst (enumerate 0 scores) = [0..<length table]"
    using assms by (simp add: map_fst_enumerate)
  also have "map ((!) table) [0..<length table] = table"
    by (rule map_nth)
  finally have "map (\<lambda>p. table ! fst p) (enumerate 0 scores) = table" .
  then have "take k (map (\<lambda>p. table ! fst p) (enumerate 0 scores)) = take k table"
    by simp
  then show ?thesis by (simp only: take_map)
qed

lemma get_recommendations_blank:
  assumes "list_all isspace q"
  shows "get_recommendations ev (built_engine ev' table) q
           = Inr ([], take RECOMMENDATION_COUNT (dropna table))"
proof -
  let ?df = "\<lparr>rows = dropna table, Cleaned_Storyline = Some (cleaned_of ev' table)\<rparr>"
  let ?vocab = "vocabulary_of (docs_of ev' table)"
  let ?vec = "\<lparr>stop_words = ENGLISH_STOP_WORDS ev', vocabulary = Some ?vocab,
               idf = idf_of (docs_of ev' table) ?vocab\<rparr>"
  let ?mat = "map (weigh ?vocab (idf_of (docs_of ev' table) ?vocab)) (docs_of ev' table)"
  let ?sw = "nltk_stopwords ev"
  let ?g = "built_engine ev' table"
  have sel: "movies_df ?g = Some ?df" "tfidf_vectorizer ?g = Some ?vec" "tfidf_matrix ?g = Some ?mat"
    by (simp_all add: built_engine_sel)
  have voc: "vocabulary ?vec = Some ?vocab" by simp
  have len: "length ?mat = length (rows ?df)" by simp
  have r: "ranking_of ?sw ?vec ?mat q = enumerate 0 (scores_of ?sw ?vec ?mat q)"
    by (rule ranking_of_zero_query[OF query_vector_blank[OF assms]])
  have l: "length (scores_of ?sw ?vec ?mat q) = length (dropna table)"
    by (simp add: scores_of_def)
  have "get_recommendations ev ?g q
      = Inr ([], map (\<lambda>p. rows ?df ! fst p) (take RECOMMENDATION_COUNT (ranking_of ?sw ?vec ?mat q)))"
    by (rule get_recommendations_consistent[OF sel voc len])
  then show ?thesis
    by (simp only: r) (simp add: rows_of_enumerate[OF l])
qed

lemma docs_nonempty_rows: "vocabulary_of (docs_of ev table) \<noteq> [] \<Longrightarrow> dropna table \<noteq> []"
  by (auto simp: vocabulary_of_empty_iff docs_of_def cleaned_of_def)

section \<open>A build without usable documents\<close>

text \<open>
  The build on the source whose only record has no storyline, from any state.
\<close>

lemma example_engine_eq: "example_engine = built_engine example_env example_table"
  by (simp add: example_engine_def example_load)

lemma empty_corpus_load:
  "load_and_preprocess_data empty_corpus_env g =
     ([DataLoaded, NumberOfMovies 0, ErrorOccurred ValueError], False,
      g\<lparr>movies_df := Some \<lparr>rows = [], Cleaned_Storyline = Some []\<rparr>,
        tfidf_vectorizer := Some (new_TfidfVectorizer [''a'', ''an''])\<rparr>)"
proof -
  let ?table = "[\<lparr>Movie_Name = Str ''C'', Storyline = NaN\<rparr>]"
  have r: "read_csv empty_corpus_env = Inr ?table"
    by (simp add: empty_corpus_env_def)
  have d: "dropna ?table = []"
    by (simp add: dropna_def)
  have s: "list_all (\<lambda>r. is_str (Storyline r)) (dropna ?table)"
    by (simp add: d)
  have c: "cleaned_of empty_corpus_env ?table = []"
    by (simp add: cleaned_of_def d)
  have v: "vocabulary_of (docs_of empty_corpus_env ?table) = []"
    by (simp add: vocabulary_of_empty_iff docs_of_def c)
  have e: "ENGLISH_STOP_WORDS empty_corpus_env = [''a'', ''an'']"
    by (simp add: empty_corpus_env_def)
  show ?thesis
    using load_empty_vocabulary[OF r s v, of g] by (simp add: d c e)
qed

lemma example_engine_matrix: "tfidf_matrix example_engine \<noteq> None"
  by (simp add: example_engine_eq built_engine_sel)

section \<open>Builds that fail\<close>

text \<open>
  Whether a build succeeds depends on the source alone, and a build that fails leaves the
  matrix as it was.
\<close>

lemma load_cases:
  obtains (read_failure) e where "read_csv ev = Inl e"
      "load_and_preprocess_data ev g =
        (if e = FileNotFoundError then [FileNotFoundMsg, RunScraperMsg] else [ErrorOccurred e],
         False, g)"
  | (attribute_failure) table where "read_csv ev = Inr table"
      "load_and_preprocess_data ev g =
        ([DataLoaded, NumberOfMovies (length (dropna table)), ErrorOccurred AttributeError], False,
         g\<lparr>movies_df := Some \<lparr>rows = dropna table, Cleaned_Storyline = None\<rparr>\<rparr>)"
  | (empty_vocabulary) table where "read_csv ev = Inr table"
      "load_and_preprocess_data ev g =
        ([DataLoaded, NumberOfMovies (length (dropna table)), ErrorOccurred ValueError], False,
         g\<lparr>movies_df := Some \<lparr>rows = dropna table, Cleaned_Storyline = Some (cleaned_of ev table)\<rparr>,
           tfidf_vectorizer := Some (new_TfidfVectorizer (ENGLISH_STOP_WORDS ev))\<rparr>)"
  | (success) table where "read_csv ev = Inr table"
      "load_and_preprocess_data ev g =
        ([DataLoaded, NumberOfMovies (length (dropna table)), TfidfCreated], True,
         built_engine ev table)"
proof (cases "read_csv ev")
  case (Inl e)
  then show ?thesis using read_failure load_read_failure by blast
next
  case (Inr table)
  show ?thesis
  proof (cases "list_all (\<lambda>r. is_str (Storyline r)) (dropna table)")
    case False
    then show ?thesis using Inr attribute_failure load_attribute_failure by blast
  next
    case True
    show ?thesis
    proof (cases "vocabulary_of (docs_of ev table) = []")
      case e: True
      then show ?thesis using Inr True empty_vocabulary load_empty_vocabulary by blast
    next
      case False
      then show ?thesis using Inr True success load_success by blast
    qed
  qed
qed

lemma load_result_independent:
  "fst (load_and_preprocess_data ev g1) = fst (load_and_preprocess_data ev g2) \<and>
   fst (snd (load_and_preprocess_data ev g1)) = fst (snd (load_and_preprocess_data ev g2))"
proof (cases "read_csv ev")
  case (Inl e)
  then show ?thesis by (simp add: load_read_failure)
next
  case (Inr table)
  show ?thesis
  proof (cases "list_all (\<lambda>r. is_str (Storyline r)) (dropna table)")
    case False
    then show ?thesis by (simp add: load_attribute_failure[OF Inr])
  next
    case True
    show ?thesis
    proof (cases "vocabulary_of (docs_of ev table) = []")
      case e: True
      then show ?thesis by (simp add: load_empty_vocabulary[OF Inr True])
    next
      case False
      then show ?thesis by (simp add: load_success[OF Inr True])
    qed
  qed
qed

lemma failed_load_matrix:
  "\<not> fst (snd (load_and_preprocess_data ev g)) \<Longrightarrow>
   tfidf_matrix (snd (snd (load_and_preprocess_data ev g))) = tfidf_matrix g"
  by (cases ev g rule: load_cases) simp_all

lemma run_failed_builds_matrix:
  "list_all (\<lambda>ev. \<not> build_succeeds ev) evs \<Longrightarrow>
   tfidf_matrix (run_builds evs g) = tfidf_matrix g"
proof (induction evs arbitrary: g)
  case Nil
  then show ?case by simp
next
  case (Cons ev evs)
  then have "\<not> fst (snd (load_and_preprocess_data ev initial_engine))"
    by (simp add: build_succeeds_def)
  then have "\<not> fst (snd (load_and_preprocess_data ev g))"
    using load_result_independent[of ev g initial_engine] by simp
  then have "tfidf_matrix (snd (snd (load_and_preprocess_data ev g))) = tfidf_matrix g"
    by (rule failed_load_matrix)
  with Cons show ?case by simp
qed

lemma no_rows_load:
  assumes "read_csv ev = Inr table" and "dropna table = []"
  shows "load_and_preprocess_data ev g =
     ([DataLoaded, NumberOfMovies 0, ErrorOccurred ValueError], False,
      g\<lparr>movies_df := Some \<lparr>rows = [], Cleaned_Storyline = Some []\<rparr>,
        tfidf_vectorizer := Some (new_TfidfVectorizer (ENGLISH_STOP_WORDS ev))\<rparr>)"
proof -
  have s: "list_all (\<lambda>r. is_str (Storyline r)) (dropna table)"
    by (simp add: assms(2))
  have c: "cleaned_of ev table = []"
    by (simp add: cleaned_of_def assms(2))
  have v: "vocabulary_of (docs_of ev table) = []"
    by (simp add: vocabulary_of_empty_iff docs_of_def c)
  show ?thesis
    using load_empty_vocabulary[OF assms(1) s v, of g] by (simp add: assms(2) c)
qed

section \<open>Dropped records\<close>

text \<open>
  Dropping the records without storyline before the build changes nothing, and every
  record returned is a row of the frame.
\<close>

lemma dropna_idem: "dropna (dropna table) = dropna table"
  by (simp add: dropna_def)

lemma dropna_not_NaN: "r \<in> set (dropna table) \<Longrightarrow> Storyline r \<noteq> NaN"
  by (simp add: dropna_def)

lemma cleaned_of_read_csv_update:
  "cleaned_of (ev\<lparr>read_csv := x\<rparr>) table = cleaned_of ev table"
  by (simp add: cleaned_of_def)

lemma docs_of_read_csv_update:
  "docs_of (ev\<lparr>read_csv := x\<rparr>) table = docs_of ev table"
  by (simp add: docs_of_def cleaned_of_read_csv_update)

lemma cleaned_of_dropna: "cleaned_of ev (dropna table) = cleaned_of ev table"
  by (simp add: cleaned_of_def dropna_idem)

lemma docs_of_dropna: "docs_of ev (dropna table) = docs_of ev table"
  by (simp add: docs_of_def cleaned_of_dropna)

lemma built_engine_dropna:
  "built_engine (ev\<lparr>read_csv := x\<rparr>) (dropna table) = built_engine ev table"
  by (simp add: built_engine_def docs_of_read_csv_update docs_of_dropna
      cleaned_of_read_csv_update cleaned_of_dropna dropna_idem)

lemma load_dropna:
  assumes "read_csv ev = Inr table"
  shows "load_and_preprocess_data (ev\<lparr>read_csv := Inr (dropna table)\<rparr>) g
           = load_and_preprocess_data ev g"
proof -
  let ?ev = "ev\<lparr>read_csv := Inr (dropna table)\<rparr>"
  have r: "read_csv ?ev = Inr (dropna table)" by simp
  have d: "docs_of ?ev (dropna table) = docs_of ev table"
    by (simp add: docs_of_read_csv_update docs_of_dropna)
  have c: "cleaned_of ?ev (dropna table) = cleaned_of ev table"
    by (simp add: cleaned_of_read_csv_update cleaned_of_dropna)
  show ?thesis
  proof (cases "list_all (\<lambda>r. is_str (Storyline r)) (dropna table)")
    case False
    then have "\<not> list_all (\<lambda>r. is_str (Storyline r)) (dropna (dropna table))"
      by (simp add: dropna_idem)
    from load_attribute_failure[OF r this, of g] load_attribute_failure[OF assms False, of g]
    show ?thesis by (simp add: dropna_idem)
  next
    case True
    then have s: "list_all (\<lambda>r. is_str (Storyline r)) (dropna (dropna table))"
      by (simp add: dropna_idem)
    show ?thesis
    proof (cases "vocabulary_of (docs_of ev table) = []")
      case e: True
      then have "vocabulary_of (docs_of ?ev (dropna table)) = []" by (simp only: d)
      from load_empty_vocabulary[OF r s this, of g] load_empty_vocabulary[OF assms True e, of g]
      show ?thesis by (simp add: dropna_idem c)
    next
      case False
      then have "vocabulary_of (docs_of ?ev (dropna table)) \<noteq> []" by (simp add: d)
      from load_success[OF r s this, of g] load_success[OF assms True False, of g]
      show ?thesis by (simp add: dropna_idem built_engine_dropna)
    qed
  qed
qed

lemma get_recommendations_rows:
  assumes "get_recommendations ev g q = Inr (msgs, recs)" and "movies_df g = Some df"
  shows "set recs \<subseteq> set (rows df)"
proof (cases "movies_df g = None \<or> tfidf_vectorizer g = None \<or> tfidf_matrix g = None")
  case True
  with assms(1) show ?thesis by (simp add: get_recommendations_def)
next
  case False
  with assms obtain indices where
    i: "iloc (rows df) indices = Inr recs"
    by (auto simp: get_recommendations_def Let_def split: sum.splits)
  then have "list_all (\<lambda>i. i < length (rows df)) indices"
    and "recs = map (\<lambda>i. rows df ! i) indices"
    by (auto simp: iloc_def split: if_splits)
  then show ?thesis by (auto simp: list_all_iff)
qed

lemma load_Inr_frame:
  assumes "read_csv ev = Inr table"
  shows "\<exists>df. movies_df (snd (snd (load_and_preprocess_data ev g))) = Some df \<and>
           rows df = dropna table"
  using assms
  by (cases ev g rule: load_cases) (auto simp: built_engine_sel)

lemma get_recommendations_built:
  "\<exists>recs. get_recommendations ev (built_engine ev' table) q = Inr ([], recs)"
proof -
  let ?g = "built_engine ev' table"
  have "length (the (tfidf_matrix ?g)) = length (rows (the (movies_df ?g)))"
    by (simp add: built_engine_sel)
  then show ?thesis
    using get_recommendations_consistent[of ?g "the (movies_df ?g)" "the (tfidf_vectorizer ?g)"
        "the (tfidf_matrix ?g)" "vocabulary_of (docs_of ev' table)" ev q]
    by (simp add: built_engine_sel)
qed

section \<open>The tokens of a cleaned storyline\<close>

text \<open>
  On the output of \<open>clean_text\<close> the analyzer of the vectorizer finds the cleaned words
  back, and keeps those of two characters or more that are not on its stop list.
\<close>

lemma split_on_word:
  assumes "w \<noteq> []" and "\<And>c. c \<in> set w \<Longrightarrow> \<not> sep c"
    and "rest = [] \<or> sep (hd rest)"
  shows "split_on sep (w @ rest) = w # split_on sep rest"
proof -
  from assms(1) obtain x w' where w: "w = x # w'" by (cases w) auto
  have t: "takeWhile (\<lambda>c. \<not> sep c) (w' @ rest) = w'"
  proof -
    have "takeWhile (\<lambda>c. \<not> sep c) rest = []"
      using assms(3) by (cases rest) auto
    moreover have "\<And>c. c \<in> set w' \<Longrightarrow> \<not> sep c"
      using assms(2) w by simp
    ultimately show ?thesis by (simp add: takeWhile_append2)
  qed
  have d: "dropWhile (\<lambda>c. \<not> sep c) (w' @ rest) = rest"
  proof -
    have "dropWhile (\<lambda>c. \<not> sep c) rest = rest"
      using assms(3) by (cases rest) auto
    moreover have "\<And>c. c \<in> set w' \<Longrightarrow> \<not> sep c"
      using assms(2) w by simp
    ultimately show ?thesis by (simp add: dropWhile_append2)
  qed
  from assms(2) w have "\<not> sep x" by simp
  then show ?thesis by (simp add: w t d)
qed

lemma split_on_str_join:
  assumes "\<And>w. w \<in> set ws \<Longrightarrow> w \<noteq> [] \<and> (\<forall>c \<in> set w. \<not> sep c)" and "sep (CHR '' '')"
  shows "split_on sep (str_join ws) = ws"
  using assms(1)
proof (induction ws rule: str_join.induct)
  case 1
  then show ?case by simp
next
  case (2 w)
  then have "split_on sep (w @ []) = w # split_on sep []"
    by (intro split_on_word) auto
  then show ?case by simp
next
  case (3 w v ws)
  have "split_on sep (w @ ('' '' @ str_join (v # ws)))
          = w # split_on sep ('' '' @ str_join (v # ws))"
    using 3(2)[of w] assms(2) by (intro split_on_word) auto
  moreover have "split_on sep ('' '' @ str_join (v # ws)) = split_on sep (str_join (v # ws))"
    using assms(2) by simp
  moreover have "split_on sep (str_join (v # ws)) = v # ws"
  proof (rule 3(1))
    fix u
    assume "u \<in> set (v # ws)"
    then have "u \<in> set (w # v # ws)" by simp
    then show "u \<noteq> [] \<and> (\<forall>c \<in> set u. \<not> sep c)" by (rule 3(2))
  qed
  ultimately show ?case by simp
qed

lemma split_on_elements:
  "w \<in> set (split_on sep xs) \<Longrightarrow> w \<noteq> [] \<and> (\<forall>c \<in> set w. \<not> sep c) \<and> set w \<subseteq> set xs"
proof (induction sep xs rule: split_on.induct)
  case (1 sep)
  then show ?case by simp
next
  case (2 sep x xs)
  show ?case
  proof (cases "sep x")
    case True
    with 2 show ?thesis by auto
  next
    case False
    from 2(3) False have
      "w = x # takeWhile (\<lambda>c. \<not> sep c) xs \<or> w \<in> set (split_on sep (dropWhile (\<lambda>c. \<not> sep c) xs))"
      by simp
    then show ?thesis
    proof
      assume "w = x # takeWhile (\<lambda>c. \<not> sep c) xs"
      with False show ?thesis by (auto dest: set_takeWhileD)
    next
      assume "w \<in> set (split_on sep (dropWhile (\<lambda>c. \<not> sep c) xs))"
      with 2(2)[OF False] have
        "w \<noteq> [] \<and> (\<forall>c \<in> set w. \<not> sep c) \<and> set w \<subseteq> set (dropWhile (\<lambda>c. \<not> sep c) xs)"
        by simp
      then show ?thesis by (auto dest: set_dropWhileD)
    qed
  qed
qed

lemma kept_char_props:
  assumes "c \<in> set ''abcdefghijklmnopqrstuvwxyz0123456789''"
  shows "is_word_char c" and "lower_char c = c"
  using assms by (auto simp: is_word_char_def lower_char_def)

lemma space_props: "\<not> is_word_char (CHR '' '')" "lower_char (CHR '' '') = CHR '' ''"
  by (simp_all add: is_word_char_def lower_char_def)

lemma words_of_chars:
  assumes "w \<in> set (words_of text)" and "c \<in> set w"
  shows "c \<in> set ''abcdefghijklmnopqrstuvwxyz0123456789''"
proof -
  from assms(1) split_on_elements[of w isspace "re_sub_special (str_lower text)"]
  have "\<forall>c \<in> set w. \<not> isspace c" "set w \<subseteq> set (re_sub_special (str_lower text))"
    by (simp_all add: words_of_def str_split_def)
  with assms(2) have "\<not> isspace c" "c \<in> set (re_sub_special (str_lower text))" by auto
  then show ?thesis by (auto simp: re_sub_special_def)
qed

lemma words_of_nonempty: "w \<in> set (words_of text) \<Longrightarrow> w \<noteq> []"
  using split_on_elements[of w isspace "re_sub_special (str_lower text)"]
  by (simp add: words_of_def str_split_def)

lemma set_str_join: "set (str_join ws) \<subseteq> \<Union> (set ` set ws) \<union> {CHR '' ''}"
  by (induction ws rule: str_join.induct) auto

lemma tokenize_cleaned:
  assumes "set ws \<subseteq> set (words_of text)"
  shows "tokenize (str_lower (str_join ws)) = [w \<leftarrow> ws. 2 \<le> length w]"
proof -
  have ch: "c \<in> set ''abcdefghijklmnopqrstuvwxyz0123456789''" if "w \<in> set ws" "c \<in> set w" for w c
    using that assms words_of_chars by blast
  have "lower_char c = c" if "c \<in> set (str_join ws)" for c
  proof -
    from that set_str_join[of ws] have "(\<exists>w \<in> set ws. c \<in> set w) \<or> c = CHR '' ''" by auto
    then show ?thesis using ch kept_char_props(2) space_props(2) by blast
  qed
  then have l: "str_lower (str_join ws) = str_join ws"
    by (simp add: str_lower_def map_idI)
  have "split_on (\<lambda>c. \<not> is_word_char c) (str_join ws) = ws"
  proof (rule split_on_str_join)
    fix w assume w: "w \<in> set ws"
    with assms have "w \<noteq> []" using words_of_nonempty by blast
    moreover have "\<forall>c \<in> set w. \<not> \<not> is_word_char c"
      using ch[OF w] kept_char_props(1) by blast
    ultimately show "w \<noteq> [] \<and> (\<forall>c \<in> set w. \<not> \<not> is_word_char c)" by simp
  next
    show "\<not> is_word_char (CHR '' '')" by (rule space_props)
  qed
  with l show ?thesis by (simp add: tokenize_def)
qed

lemma analyzer_clean_text:
  "build_analyzer (ENGLISH_STOP_WORDS ev) (clean_text (nltk_stopwords ev) text)
     = effective_tokens ev text"
proof -
  let ?ws = "[word \<leftarrow> words_of text. word \<notin> set (nltk_stopwords ev)]"
  have c: "clean_text (nltk_stopwords ev) text = str_join ?ws"
    by (simp add: clean_text_def words_of_def)
  have "tokenize (str_lower (str_join ?ws)) = [w \<leftarrow> ?ws. 2 \<le> length w]"
    by (rule tokenize_cleaned) auto
  then show ?thesis
    by (simp add: build_analyzer_def c effective_tokens_def conj_commute conj_left_commute)
qed

section \<open>Rounding to the nearest double\<close>

text \<open>
  A real number within half a unit in the last place of a double rounds to that double, and
  a number halfway between two doubles rounds to the one with the even mantissa.
\<close>

lemma pow2_powr: "pow2 k = 2 powr (real_of_int k)"
proof (cases "0 \<le> k")
  case True
  then have "2 powr (real_of_int k) = (2::real) ^ nat k"
    by (simp add: powr_realpow[symmetric])
  with True show ?thesis by (simp add: pow2_def)
next
  case False
  then have "real_of_int k = - real (nat (- k))" by simp
  then have "2 powr (real_of_int k) = 1 / (2::real) ^ nat (- k)"
    by (simp only: powr_minus powr_realpow zero_less_numeral) (simp add: field_simps)
  with False show ?thesis by (simp add: pow2_def)
qed

lemma pow2_pos: "0 < pow2 k"
  by (simp add: pow2_powr)

lemma pow2_nonzero [simp]: "pow2 k \<noteq> 0"
  using pow2_pos[of k] by simp










section \<open>The parallel corpus in binary64\<close>





























































section \<open>Claim C1: the top five of the ranking\<close>

text \<open>
  Claim C1. After a successful \<open>load_and_preprocess_data\<close>, \<open>get_recommendations\<close> returns,
  for every query, exactly \<open>min 5 n\<close> records, \<open>n\<close> being the number of rows of the frame.
  They are the rows at the first positions of the ranking \<open>similarity_scores\<close>, which holds
  every row position once with its cosine score and is ordered by \<open>ranks_before\<close>: a higher
  score comes first, and of two equal scores the smaller row position comes first.
\<close>

theorem top_k_sorted_stable:
  assumes "load_and_preprocess_data ev g = (out, True, g')"
  shows "\<exists>df vec mat user_vector scores ranked.
           movies_df g' = Some df \<and> tfidf_vectorizer g' = Some vec \<and> tfidf_matrix g' = Some mat \<and>
           transform vec [preprocess_user_storyline (nltk_stopwords ev) q] = Inr user_vector \<and>
           cosine_similarity user_vector mat = Inr [scores] \<and>
           length scores = length (rows df) \<and>
           similarity_scores (nltk_stopwords ev) vec mat q = Inr ranked \<and>
           mset ranked = mset (enumerate 0 scores) \<and>
           sorted_wrt ranks_before ranked \<and>
           get_recommendations ev g' q
             = Inr ([], map (\<lambda>p. rows df ! fst p) (take RECOMMENDATION_COUNT ranked)) \<and>
           length (take RECOMMENDATION_COUNT ranked) = min 5 (length (rows df))"
proof -
  from load_True_D[OF assms] obtain table where
    g': "g' = built_engine ev table" by blast
  let ?df = "\<lparr>rows = dropna table, Cleaned_Storyline = Some (cleaned_of ev table)\<rparr>"
  let ?vocab = "vocabulary_of (docs_of ev table)"
  let ?vec = "\<lparr>stop_words = ENGLISH_STOP_WORDS ev, vocabulary = Some ?vocab,
               idf = idf_of (docs_of ev table) ?vocab\<rparr>"
  let ?mat = "map (weigh ?vocab (idf_of (docs_of ev table) ?vocab)) (docs_of ev table)"
  let ?sw = "nltk_stopwords ev"
  have sel: "movies_df g' = Some ?df" "tfidf_vectorizer g' = Some ?vec" "tfidf_matrix g' = Some ?mat"
    by (simp_all add: g' built_engine_sel)
  have voc: "vocabulary ?vec = Some ?vocab" by simp
  have len: "length ?mat = length (rows ?df)" by simp
  have t: "transform ?vec [preprocess_user_storyline ?sw q] = Inr [query_vector ?sw ?vec q]"
    by (rule transform_query[OF voc])
  have c: "cosine_similarity [query_vector ?sw ?vec q] ?mat = Inr [scores_of ?sw ?vec ?mat q]"
    by (simp add: cosine_similarity_eq scores_of_def)
  have ls: "length (scores_of ?sw ?vec ?mat q) = length (rows ?df)"
    by (simp add: scores_of_def)
  have s: "similarity_scores ?sw ?vec ?mat q = Inr (ranking_of ?sw ?vec ?mat q)"
    by (rule similarity_scores_fitted[OF voc])
  have m: "mset (ranking_of ?sw ?vec ?mat q) = mset (enumerate 0 (scores_of ?sw ?vec ?mat q))"
    by (simp add: ranking_of_def mset_sorted_reverse)
  have r: "sorted_wrt ranks_before (ranking_of ?sw ?vec ?mat q)"
    by (simp add: ranking_of_def sorted_reverse_enumerate_ranks)
  have gr: "get_recommendations ev g' q
      = Inr ([], map (\<lambda>p. rows ?df ! fst p) (take RECOMMENDATION_COUNT (ranking_of ?sw ?vec ?mat q)))"
    by (rule get_recommendations_consistent[OF sel voc len])
  have k: "length (take RECOMMENDATION_COUNT (ranking_of ?sw ?vec ?mat q)) = min 5 (length (rows ?df))"
    by (simp add: RECOMMENDATION_COUNT_def min.commute)
  show ?thesis
    using sel t c ls s m r gr k by blast
qed

theorem top_k_sorted_stable_witness:
  "\<exists>g' df recs.
     load_and_preprocess_data example_env initial_engine
       = ([DataLoaded, NumberOfMovies 2, TfidfCreated], True, g') \<and>
     movies_df g' = Some df \<and> length (rows df) = 2 \<and>
     get_recommendations example_env g' ''a young wizard fights a dragon'' = Inr ([], recs) \<and>
     length recs = 2"
proof -
  let ?g = "built_engine example_env example_table"
  have l: "load_and_preprocess_data example_env initial_engine
       = ([DataLoaded, NumberOfMovies 2, TfidfCreated], True, ?g)"
    by (rule example_load)
  have n: "length (rows (the (movies_df ?g))) = 2"
    by (simp add: built_engine_sel example_table_def dropna_def)
  from top_k_sorted_stable[OF l, of "''a young wizard fights a dragon''"] n l
  show ?thesis by auto
qed

section \<open>Claim C2: blank queries\<close>

text \<open>
  On the two-movie corpus the empty query and a query of two spaces both return the two
  movies, not the empty list.
\<close>

theorem blank_query_counterexample:
  "fst (snd (load_and_preprocess_data example_env initial_engine)) = True \<and>
   get_recommendations example_env
     (snd (snd (load_and_preprocess_data example_env initial_engine))) '''' 
     = Inr ([], example_table) \<and>
   get_recommendations example_env
     (snd (snd (load_and_preprocess_data example_env initial_engine))) ''  ''
     = Inr ([], example_table) \<and>
   example_table \<noteq> []"
proof -
  have d: "take RECOMMENDATION_COUNT (dropna example_table) = example_table"
    by (simp add: RECOMMENDATION_COUNT_def example_table_def dropna_def)
  have "get_recommendations example_env (built_engine example_env example_table) ''''
          = Inr ([], example_table)"
    using get_recommendations_blank[of "''''" example_env example_env example_table]
    by (simp add: d)
  moreover have "get_recommendations example_env (built_engine example_env example_table) ''  ''
          = Inr ([], example_table)"
    using get_recommendations_blank[of "''  ''" example_env example_env example_table]
    by (simp add: d isspace_def)
  moreover have "example_table \<noteq> []" by (simp add: example_table_def)
  ultimately show ?thesis by (simp add: example_load)
qed

text \<open>
  Claim C2, amended. After a successful \<open>load_and_preprocess_data\<close>, a query that is empty
  or consists of whitespace only raises nothing and prints nothing; every score of its
  ranking is 0, and \<open>get_recommendations\<close> returns the first \<open>min 5 n\<close> rows of the frame
  in their order, which is never the empty list.
\<close>

theorem blank_query_returns_first_rows:
  assumes "load_and_preprocess_data ev g = (out, True, g')" and "list_all isspace q"
  shows "\<exists>df vec mat ranked.
           movies_df g' = Some df \<and> rows df \<noteq> [] \<and>
           tfidf_vectorizer g' = Some vec \<and> tfidf_matrix g' = Some mat \<and>
           similarity_scores (nltk_stopwords ev) vec mat q = Inr ranked \<and>
           (\<forall>p \<in> set ranked. snd p = 0) \<and>
           get_recommendations ev g' q = Inr ([], take RECOMMENDATION_COUNT (rows df))"
proof -
  from load_True_D[OF assms(1)] obtain table where
    v: "vocabulary_of (docs_of ev table) \<noteq> []" and g': "g' = built_engine ev table" by blast
  let ?df = "\<lparr>rows = dropna table, Cleaned_Storyline = Some (cleaned_of ev table)\<rparr>"
  let ?vocab = "vocabulary_of (docs_of ev table)"
  let ?vec = "\<lparr>stop_words = ENGLISH_STOP_WORDS ev, vocabulary = Some ?vocab,
               idf = idf_of (docs_of ev table) ?vocab\<rparr>"
  let ?mat = "map (weigh ?vocab (idf_of (docs_of ev table) ?vocab)) (docs_of ev table)"
  let ?sw = "nltk_stopwords ev"
  have sel: "movies_df g' = Some ?df" "tfidf_vectorizer g' = Some ?vec" "tfidf_matrix g' = Some ?mat"
    by (simp_all add: g' built_engine_sel)
  have voc: "vocabulary ?vec = Some ?vocab" by simp
  have n: "rows ?df \<noteq> []"
    using docs_nonempty_rows[OF v] by simp
  have s: "similarity_scores ?sw ?vec ?mat q = Inr (ranking_of ?sw ?vec ?mat q)"
    by (rule similarity_scores_fitted[OF voc])
  have z: "sum_sq (unit_row (query_vector ?sw ?vec q)) = 0"
    by (rule query_vector_blank[OF assms(2)])
  have a: "snd p = 0" if "p \<in> set (ranking_of ?sw ?vec ?mat q)" for p
  proof -
    from that have "snd p = dot (unit_row (query_vector ?sw ?vec q)) (unit_row (?mat ! fst p))"
      by (simp only: ranking_of_member)
    with z show ?thesis by (simp only: dot_zero_left)
  qed
  have r: "get_recommendations ev g' q = Inr ([], take RECOMMENDATION_COUNT (rows ?df))"
    unfolding g' using get_recommendations_blank[OF assms(2), of ev ev table] by simp
  from sel n s a r show ?thesis by blast
qed

theorem blank_query_returns_first_rows_witness:
  "list_all isspace '' '' \<and>
   (\<exists>out g' df vec mat ranked.
      load_and_preprocess_data example_env initial_engine = (out, True, g') \<and>
      movies_df g' = Some df \<and> rows df \<noteq> [] \<and>
      tfidf_vectorizer g' = Some vec \<and> tfidf_matrix g' = Some mat \<and>
      similarity_scores (nltk_stopwords example_env) vec mat '' '' = Inr ranked \<and>
      (\<forall>p \<in> set ranked. snd p = 0) \<and>
      get_recommendations example_env g' '' '' = Inr ([], take RECOMMENDATION_COUNT (rows df)))"
proof -
  have s: "list_all isspace '' ''" by (simp add: isspace_def)
  from blank_query_returns_first_rows[OF example_load[of initial_engine] s] s example_load
  show ?thesis by blast
qed

section \<open>Claim C3: self-similarity\<close>




section \<open>Claim C4: one normalisation on both sides\<close>

text \<open>
  Claim C4. The normalisation that \<open>get_recommendations\<close> applies to the query (lines 87 to
  89) and the function \<open>clean_text\<close> applied to every storyline at build time are the same
  function from strings to strings, given the same NLTK stop list.
\<close>

theorem query_normalization_is_clean_text:
  "preprocess_user_storyline stopwords text = clean_text stopwords text"
  by (simp add: preprocess_user_storyline_def clean_text_def)

theorem query_normalization_is_clean_text_witness:
  "preprocess_user_storyline [''a'', ''the''] ''A Wizard, and the Dragon!'' = ''wizard and dragon''
   \<and> clean_text [''a'', ''the''] ''A Wizard, and the Dragon!'' = ''wizard and dragon''"
  using query_normalization_is_clean_text[of "[''a'', ''the'']" "''A Wizard, and the Dragon!''"]
  by (simp add: text_simps)

section \<open>Claim C5: the state after a failed build\<close>

text \<open>
  The two-movie corpus is built; then the source has no usable document. The second build
  fails, and it has replaced the frame and the vectorizer while the old matrix stays: the
  state is not the one before the build, and \<open>get_recommendations\<close> raises on it.
\<close>

theorem failed_build_counterexample:
  "fst (snd (load_and_preprocess_data example_env initial_engine)) = True \<and>
   fst (snd (load_and_preprocess_data empty_corpus_env example_engine)) = False \<and>
   snd (snd (load_and_preprocess_data empty_corpus_env example_engine)) \<noteq> example_engine \<and>
   movies_df (snd (snd (load_and_preprocess_data empty_corpus_env example_engine)))
     = Some \<lparr>rows = [], Cleaned_Storyline = Some []\<rparr> \<and>
   tfidf_vectorizer (snd (snd (load_and_preprocess_data empty_corpus_env example_engine)))
     = Some (new_TfidfVectorizer [''a'', ''an'']) \<and>
   tfidf_matrix (snd (snd (load_and_preprocess_data empty_corpus_env example_engine)))
     = tfidf_matrix example_engine \<and>
   get_recommendations example_env
     (snd (snd (load_and_preprocess_data empty_corpus_env example_engine))) ''wizard''
     = Inl NotFittedError"
proof -
  let ?g = "snd (snd (load_and_preprocess_data empty_corpus_env example_engine))"
  have g: "?g = example_engine\<lparr>movies_df := Some \<lparr>rows = [], Cleaned_Storyline = Some []\<rparr>,
        tfidf_vectorizer := Some (new_TfidfVectorizer [''a'', ''an''])\<rparr>"
    by (simp add: empty_corpus_load)
  have m: "movies_df ?g = Some \<lparr>rows = [], Cleaned_Storyline = Some []\<rparr>"
    by (simp add: g)
  have v: "tfidf_vectorizer ?g = Some (new_TfidfVectorizer [''a'', ''an''])"
    by (simp add: g)
  have x: "tfidf_matrix ?g = tfidf_matrix example_engine"
    by (simp add: g)
  from example_engine_matrix obtain mat where mat: "tfidf_matrix example_engine = Some mat"
    by blast
  have a: "rows (the (movies_df example_engine)) = example_table"
    by (simp add: example_engine_eq built_engine_sel example_table_def dropna_def)
  have b: "rows (the (movies_df ?g)) = []"
    by (simp only: m option.sel DataFrame.simps)
  have "example_table \<noteq> []"
    by (simp add: example_table_def)
  with a b have ne: "?g \<noteq> example_engine" by metis
  have "get_recommendations example_env ?g ''wizard'' = Inl NotFittedError"
    by (rule get_recommendations_unfitted[OF m v]) (simp_all add: x mat new_TfidfVectorizer_def)
  with m v x ne show ?thesis by (simp add: empty_corpus_load example_load)
qed

text \<open>
  Claim C5, amended. A build that fails leaves the TF-IDF matrix as it was. If it fails
  because the source cannot be read, the whole state is as it was; if it fails after the
  source was read, the frame has already been replaced by the rows read.
\<close>

theorem failed_build_state:
  assumes "load_and_preprocess_data ev g = (out, False, g')"
  shows "tfidf_matrix g' = tfidf_matrix g \<and>
         (\<forall>e. read_csv ev = Inl e \<longrightarrow> g' = g) \<and>
         (\<forall>table. read_csv ev = Inr table \<longrightarrow>
            (\<exists>df. movies_df g' = Some df \<and> rows df = dropna table))"
proof (cases "read_csv ev")
  case (Inl e)
  with assms show ?thesis by (simp add: load_read_failure split: if_splits)
next
  case (Inr table)
  show ?thesis
  proof (cases "list_all (\<lambda>r. is_str (Storyline r)) (dropna table)")
    case False
    from assms show ?thesis
      unfolding load_attribute_failure[OF Inr False] using Inr by auto
  next
    case True
    show ?thesis
    proof (cases "vocabulary_of (docs_of ev table) = []")
      case e: True
      from assms show ?thesis
        unfolding load_empty_vocabulary[OF Inr True e] using Inr by auto
    next
      case False
      from assms show ?thesis
        unfolding load_success[OF Inr True False] by simp
    qed
  qed
qed

theorem failed_build_state_witness:
  "load_and_preprocess_data missing_file_env example_engine
     = ([FileNotFoundMsg, RunScraperMsg], False, example_engine) \<and>
   tfidf_matrix example_engine \<noteq> None \<and>
   (\<exists>out g' df. load_and_preprocess_data empty_corpus_env example_engine = (out, False, g') \<and>
      tfidf_matrix g' = tfidf_matrix example_engine \<and> movies_df g' = Some df \<and> rows df = [])"
proof -
  have r: "read_csv missing_file_env = Inl FileNotFoundError"
    by (simp add: missing_file_env_def)
  have l: "load_and_preprocess_data missing_file_env example_engine
     = ([FileNotFoundMsg, RunScraperMsg], False, example_engine)"
    by (simp add: load_read_failure[OF r])
  have d: "dropna [\<lparr>Movie_Name = Str ''C'', Storyline = NaN\<rparr>] = []"
    by (simp add: dropna_def)
  have c: "read_csv empty_corpus_env = Inr [\<lparr>Movie_Name = Str ''C'', Storyline = NaN\<rparr>]"
    by (simp add: empty_corpus_env_def)
  from failed_build_state[OF empty_corpus_load[of example_engine]] c d
  have "tfidf_matrix (example_engine\<lparr>movies_df := Some \<lparr>rows = [], Cleaned_Storyline = Some []\<rparr>,
        tfidf_vectorizer := Some (new_TfidfVectorizer [''a'', ''an''])\<rparr>) = tfidf_matrix example_engine \<and>
     (\<exists>df. movies_df (example_engine\<lparr>movies_df := Some \<lparr>rows = [], Cleaned_Storyline = Some []\<rparr>,
        tfidf_vectorizer := Some (new_TfidfVectorizer [''a'', ''an''])\<rparr>) = Some df \<and> rows df = [])"
    by simp
  with l example_engine_matrix empty_corpus_load[of example_engine] show ?thesis
    by blast
qed

section \<open>Claim C6: records without storyline\<close>

text \<open>
  Claim C6. A record whose \<open>Storyline\<close> field is absent or empty is a \<open>NaN\<close> cell of the
  frame read. The build on a table is the build on the table without these records, so
  they give no document, no matrix row and no vocabulary term; the frame the build leaves
  holds none of them, a successful build leaves one matrix row per remaining record, and
  no record that \<open>get_recommendations\<close> returns is one of them.
\<close>

theorem missing_storyline_excluded:
  assumes "read_csv ev = Inr table"
    and "load_and_preprocess_data ev g = (out, ok, g')"
  shows "load_and_preprocess_data (ev\<lparr>read_csv := Inr [r \<leftarrow> table. Storyline r \<noteq> NaN]\<rparr>) g
           = (out, ok, g') \<and>
         (\<exists>df. movies_df g' = Some df \<and>
            rows df = [r \<leftarrow> table. Storyline r \<noteq> NaN] \<and>
            (ok \<longrightarrow> (\<exists>mat. tfidf_matrix g' = Some mat \<and> length mat = length (rows df)))) \<and>
         (\<forall>q msgs recs. get_recommendations ev g' q = Inr (msgs, recs) \<longrightarrow>
            (\<forall>r \<in> set recs. Storyline r \<noteq> NaN))"
proof -
  have a: "load_and_preprocess_data (ev\<lparr>read_csv := Inr [r \<leftarrow> table. Storyline r \<noteq> NaN]\<rparr>) g
           = (out, ok, g')"
    using load_dropna[OF assms(1), of g] assms(2) by (simp add: dropna_def)
  from load_Inr_frame[OF assms(1), of g] assms(2) obtain df where
    df: "movies_df g' = Some df" "rows df = dropna table" by auto
  have m: "\<exists>mat. tfidf_matrix g' = Some mat \<and> length mat = length (rows df)" if ok
  proof -
    from that assms(2) have "load_and_preprocess_data ev g = (out, True, g')" by simp
    from load_True_D[OF this] obtain t where
      "read_csv ev = Inr t" "g' = built_engine ev t" by blast
    with assms(1) df show ?thesis by (simp add: built_engine_sel)
  qed
  have c: "Storyline r \<noteq> NaN"
    if "get_recommendations ev g' q = Inr (msgs, recs)" "r \<in> set recs" for q msgs recs r
  proof -
    from get_recommendations_rows[OF that(1) df(1)] that(2) df(2)
    have "r \<in> set (dropna table)" by auto
    then show ?thesis by (rule dropna_not_NaN)
  qed
  from a df m c show ?thesis by (auto simp: dropna_def)
qed

theorem missing_storyline_excluded_witness:
  "\<exists>out g' df mat recs.
     load_and_preprocess_data gap_env initial_engine = (out, True, g') \<and>
     load_and_preprocess_data
       (gap_env\<lparr>read_csv := Inr [\<lparr>Movie_Name = Str ''A'',
                                   Storyline = Str ''a wizard battles a dragon''\<rparr>]\<rparr>)
       initial_engine = (out, True, g') \<and>
     movies_df g' = Some df \<and>
     rows df = [\<lparr>Movie_Name = Str ''A'', Storyline = Str ''a wizard battles a dragon''\<rparr>] \<and>
     tfidf_matrix g' = Some mat \<and> length mat = 1 \<and>
     get_recommendations gap_env g' ''dragon'' = Inr ([], recs) \<and>
     (\<forall>r \<in> set recs. Storyline r \<noteq> NaN)"
proof -
  let ?A = "\<lparr>Movie_Name = Str ''A'', Storyline = Str ''a wizard battles a dragon''\<rparr>"
  have r: "read_csv gap_env = Inr gap_table"
    by (simp add: gap_env_def)
  have d: "dropna gap_table = [?A]"
    by (simp add: gap_table_def dropna_def)
  have f: "[r \<leftarrow> gap_table. Storyline r \<noteq> NaN] = [?A]"
    by (simp add: gap_table_def)
  have s: "list_all (\<lambda>r. is_str (Storyline r)) (dropna gap_table)"
    by (simp add: d is_str_def)
  have "docs_of gap_env gap_table = [[''wizard'', ''battles'', ''dragon'']]"
    by (simp add: docs_of_def cleaned_of_def d gap_env_def text_of_def text_simps)
  then have v: "vocabulary_of (docs_of gap_env gap_table) \<noteq> []"
    by (simp add: vocabulary_of_empty_iff)
  have l: "load_and_preprocess_data gap_env initial_engine =
     ([DataLoaded, NumberOfMovies (length (dropna gap_table)), TfidfCreated], True,
      built_engine gap_env gap_table)"
    by (rule load_success[OF r s v])
  from get_recommendations_built[of gap_env gap_env gap_table "''dragon''"] obtain recs where
    g: "get_recommendations gap_env (built_engine gap_env gap_table) ''dragon'' = Inr ([], recs)"
    by blast
  note e = missing_storyline_excluded[OF r l, unfolded f]
  from e obtain df where
    df: "movies_df (built_engine gap_env gap_table) = Some df" "rows df = [?A]"
      "\<exists>mat. tfidf_matrix (built_engine gap_env gap_table) = Some mat \<and> length mat = length (rows df)"
    by blast
  from df(2,3) obtain mat where
    mat: "tfidf_matrix (built_engine gap_env gap_table) = Some mat" "length mat = 1"
    by auto
  from e g have n: "\<forall>r \<in> set recs. Storyline r \<noteq> NaN" by blast
  from e have l': "load_and_preprocess_data (gap_env\<lparr>read_csv := Inr [?A]\<rparr>) initial_engine =
     ([DataLoaded, NumberOfMovies (length (dropna gap_table)), TfidfCreated], True,
      built_engine gap_env gap_table)" by blast
  from l l' df(1,2) mat g n show ?thesis by blast
qed

section \<open>Claim C7: scoring never divides by zero\<close>

text \<open>
  Claim C7. After a successful \<open>load_and_preprocess_data\<close>, scoring a query never raises:
  the query is vectorised, \<open>similarity_scores\<close> returns a ranking and
  \<open>get_recommendations\<close> returns records, although every division of the model is checked.
  A pair whose query vector or document vector has Euclidean norm zero has the score 0.
\<close>

theorem scoring_total_zero_norm:
  assumes "load_and_preprocess_data ev g = (out, True, g')"
  shows "\<exists>vec mat user_vector ranked recs.
           tfidf_vectorizer g' = Some vec \<and> tfidf_matrix g' = Some mat \<and>
           transform vec [preprocess_user_storyline (nltk_stopwords ev) q] = Inr [user_vector] \<and>
           similarity_scores (nltk_stopwords ev) vec mat q = Inr ranked \<and>
           get_recommendations ev g' q = Inr ([], recs) \<and>
           (\<forall>p \<in> set ranked.
              l2_norm user_vector = 0 \<or> l2_norm (mat ! fst p) = 0 \<longrightarrow> snd p = 0)"
proof -
  from load_True_D[OF assms] obtain table where
    g': "g' = built_engine ev table" by blast
  let ?df = "\<lparr>rows = dropna table, Cleaned_Storyline = Some (cleaned_of ev table)\<rparr>"
  let ?vocab = "vocabulary_of (docs_of ev table)"
  let ?vec = "\<lparr>stop_words = ENGLISH_STOP_WORDS ev, vocabulary = Some ?vocab,
               idf = idf_of (docs_of ev table) ?vocab\<rparr>"
  let ?mat = "map (weigh ?vocab (idf_of (docs_of ev table) ?vocab)) (docs_of ev table)"
  let ?sw = "nltk_stopwords ev"
  let ?qv = "query_vector ?sw ?vec q"
  have sel: "movies_df g' = Some ?df" "tfidf_vectorizer g' = Some ?vec" "tfidf_matrix g' = Some ?mat"
    by (simp_all add: g' built_engine_sel)
  have voc: "vocabulary ?vec = Some ?vocab" by simp
  have len: "length ?mat = length (rows ?df)" by simp
  have t: "transform ?vec [preprocess_user_storyline ?sw q] = Inr [?qv]"
    by (rule transform_query[OF voc])
  have s: "similarity_scores ?sw ?vec ?mat q = Inr (ranking_of ?sw ?vec ?mat q)"
    by (rule similarity_scores_fitted[OF voc])
  have gr: "get_recommendations ev g' q
      = Inr ([], map (\<lambda>p. rows ?df ! fst p) (take RECOMMENDATION_COUNT (ranking_of ?sw ?vec ?mat q)))"
    by (rule get_recommendations_consistent[OF sel voc len])
  have z: "snd p = 0"
    if p: "p \<in> set (ranking_of ?sw ?vec ?mat q)"
      and n: "l2_norm ?qv = 0 \<or> l2_norm (?mat ! fst p) = 0" for p
  proof -
    from p have sp: "snd p = dot (unit_row ?qv) (unit_row (?mat ! fst p))"
      by (simp only: ranking_of_member)
    from n show ?thesis
    proof
      assume "l2_norm ?qv = 0"
      then have "sum_sq (unit_row ?qv) = 0"
        by (simp add: l2_norm_zero_iff sum_sq_unit_row)
      then show ?thesis by (simp only: sp dot_zero_left)
    next
      assume "l2_norm (?mat ! fst p) = 0"
      then have "sum_sq (unit_row (?mat ! fst p)) = 0"
        by (simp add: l2_norm_zero_iff sum_sq_unit_row)
      then show ?thesis by (simp only: sp dot_zero_right)
    qed
  qed
  show ?thesis
    using sel t s gr z by blast
qed

theorem scoring_total_zero_norm_witness:
  "\<exists>g' vec mat user_vector ranked recs.
     load_and_preprocess_data example_env initial_engine
       = ([DataLoaded, NumberOfMovies 2, TfidfCreated], True, g') \<and>
     tfidf_vectorizer g' = Some vec \<and> tfidf_matrix g' = Some mat \<and>
     transform vec [preprocess_user_storyline (nltk_stopwords example_env) ''zebra'']
       = Inr [user_vector] \<and>
     l2_norm user_vector = 0 \<and>
     similarity_scores (nltk_stopwords example_env) vec mat ''zebra'' = Inr ranked \<and>
     get_recommendations example_env g' ''zebra'' = Inr ([], recs) \<and>
     (\<forall>p \<in> set ranked. snd p = 0)"
proof -
  let ?g = "built_engine example_env example_table"
  have l: "load_and_preprocess_data example_env initial_engine
       = ([DataLoaded, NumberOfMovies 2, TfidfCreated], True, ?g)"
    by (rule example_load)
  from scoring_total_zero_norm[OF l, of "''zebra''"] obtain vec mat user_vector ranked recs where
    h: "tfidf_vectorizer ?g = Some vec" "tfidf_matrix ?g = Some mat"
      "transform vec [preprocess_user_storyline (nltk_stopwords example_env) ''zebra''] = Inr [user_vector]"
      "similarity_scores (nltk_stopwords example_env) vec mat ''zebra'' = Inr ranked"
      "get_recommendations example_env ?g ''zebra'' = Inr ([], recs)"
      "\<forall>p \<in> set ranked. l2_norm user_vector = 0 \<or> l2_norm (mat ! fst p) = 0 \<longrightarrow> snd p = 0"
    by blast
  from h(1) have voc: "vocabulary vec = Some (vocabulary_of (docs_of example_env example_table))"
    by (auto simp: built_engine_sel)
  from h(3) have "user_vector = query_vector (nltk_stopwords example_env) vec ''zebra''"
    by (simp add: transform_query[OF voc])
  with h(1) example_zebra_norm have n: "l2_norm user_vector = 0" by simp
  with h(6) have "\<forall>p \<in> set ranked. snd p = 0" by blast
  with l h n show ?thesis by blast
qed

section \<open>Claim C8: the empty corpus\<close>

text \<open>
  The two-movie corpus is built; then a build on a source without usable documents fails.
  The next \<open>get_recommendations\<close> does not report that the engine is not initialised: the
  three globals are set, and the unfitted vectorizer raises.
\<close>

theorem empty_corpus_counterexample:
  "fst (snd (load_and_preprocess_data example_env initial_engine)) = True \<and>
   fst (snd (load_and_preprocess_data empty_corpus_env example_engine)) = False \<and>
   get_recommendations empty_corpus_env
     (snd (snd (load_and_preprocess_data empty_corpus_env example_engine))) ''a dragon''
     = Inl NotFittedError \<and>
   get_recommendations empty_corpus_env
     (snd (snd (load_and_preprocess_data empty_corpus_env example_engine))) ''a dragon''
     \<noteq> Inr ([NotInitializedMsg], [])"
proof -
  let ?g = "snd (snd (load_and_preprocess_data empty_corpus_env example_engine))"
  have g: "?g = example_engine\<lparr>movies_df := Some \<lparr>rows = [], Cleaned_Storyline = Some []\<rparr>,
        tfidf_vectorizer := Some (new_TfidfVectorizer [''a'', ''an''])\<rparr>"
    by (simp add: empty_corpus_load)
  from example_engine_matrix obtain mat where mat: "tfidf_matrix example_engine = Some mat"
    by blast
  have "get_recommendations empty_corpus_env ?g ''a dragon'' = Inl NotFittedError"
    unfolding g
    by (rule get_recommendations_unfitted[where mat = mat
          and vec = "new_TfidfVectorizer [''a'', ''an'']"
          and df = "\<lparr>rows = [], Cleaned_Storyline = Some []\<rparr>"])
       (simp_all add: mat new_TfidfVectorizer_def)
  then show ?thesis by (simp add: empty_corpus_load example_load)
qed

text \<open>
  Claim C8, amended. A build on a source that yields no usable document fails, from every
  state. If no build has succeeded before (the matrix is still \<open>None\<close>), then after it, and
  after any further builds that fail, every \<open>get_recommendations\<close> prints that the engine
  is not initialised and returns the empty list.
\<close>

theorem empty_corpus_not_initialized:
  assumes "read_csv ev = Inr table" and "dropna table = []"
  shows "fst (snd (load_and_preprocess_data ev g)) = False \<and>
         (tfidf_matrix g = None \<longrightarrow> list_all (\<lambda>ev. \<not> build_succeeds ev) later \<longrightarrow>
            get_recommendations ev'
              (run_builds later (snd (snd (load_and_preprocess_data ev g)))) q
              = Inr ([NotInitializedMsg], []))"
proof -
  have f: "fst (snd (load_and_preprocess_data ev g)) = False"
    by (simp add: no_rows_load[OF assms(1,2)])
  have "get_recommendations ev'
           (run_builds later (snd (snd (load_and_preprocess_data ev g)))) q
           = Inr ([NotInitializedMsg], [])"
    if m: "tfidf_matrix g = None" and l: "list_all (\<lambda>ev. \<not> build_succeeds ev) later"
  proof -
    from f have "tfidf_matrix (snd (snd (load_and_preprocess_data ev g))) = None"
      using failed_load_matrix[of ev g] m by simp
    then have "tfidf_matrix (run_builds later (snd (snd (load_and_preprocess_data ev g)))) = None"
      by (simp add: run_failed_builds_matrix[OF l])
    then show ?thesis
      by (intro get_recommendations_uninitialized) simp
  qed
  with f show ?thesis by simp
qed

theorem empty_corpus_not_initialized_witness:
  "fst (snd (load_and_preprocess_data empty_corpus_env initial_engine)) = False \<and>
   get_recommendations example_env
     (run_builds [missing_file_env, single_letter_env]
        (snd (snd (load_and_preprocess_data empty_corpus_env initial_engine)))) ''a dragon''
     = Inr ([NotInitializedMsg], [])"
proof -
  have r: "read_csv empty_corpus_env = Inr [\<lparr>Movie_Name = Str ''C'', Storyline = NaN\<rparr>]"
    by (simp add: empty_corpus_env_def)
  have d: "dropna [\<lparr>Movie_Name = Str ''C'', Storyline = NaN\<rparr>] = []"
    by (simp add: dropna_def)
  have m: "tfidf_matrix initial_engine = None"
    by (simp add: initial_engine_def)
  have "read_csv missing_file_env = Inl FileNotFoundError"
    by (simp add: missing_file_env_def)
  then have "\<not> build_succeeds missing_file_env"
    by (simp add: build_succeeds_def load_read_failure)
  moreover have "\<not> build_succeeds single_letter_env"
    by (simp add: build_succeeds_def single_letter_load)
  ultimately have l: "list_all (\<lambda>ev. \<not> build_succeeds ev) [missing_file_env, single_letter_env]"
    by simp
  from empty_corpus_not_initialized[OF r d, of initial_engine
      "[missing_file_env, single_letter_env]" example_env "''a dragon''"] m l
  show ?thesis by blast
qed

section \<open>Claim C9: determinism of the build\<close>

text \<open>
  Claim C9. Two runs of \<open>load_and_preprocess_data\<close> on the same source, from any two states
  of the module, print the same, return the same result and, when they succeed, leave the
  same frame, the same vocabulary and weights and the same matrix; every query then gets
  the same ranking and the same answer from both.
\<close>

theorem build_deterministic:
  assumes "load_and_preprocess_data ev g1 = (out1, ok1, h1)"
    and "load_and_preprocess_data ev g2 = (out2, ok2, h2)"
  shows "out1 = out2 \<and> ok1 = ok2 \<and>
         (ok1 \<longrightarrow>
            (\<exists>vec mat vocab.
               tfidf_vectorizer h1 = Some vec \<and> tfidf_vectorizer h2 = Some vec \<and>
               vocabulary vec = Some vocab \<and>
               tfidf_matrix h1 = Some mat \<and> tfidf_matrix h2 = Some mat) \<and>
            h1 = h2 \<and>
            get_recommendations ev h1 q = get_recommendations ev h2 q)"
proof -
  from load_result_independent[of ev g1 g2] assms
  have o: "out1 = out2" "ok1 = ok2" by simp_all
  have "(\<exists>vec mat vocab.
               tfidf_vectorizer h1 = Some vec \<and> tfidf_vectorizer h2 = Some vec \<and>
               vocabulary vec = Some vocab \<and>
               tfidf_matrix h1 = Some mat \<and> tfidf_matrix h2 = Some mat) \<and>
            h1 = h2 \<and>
            get_recommendations ev h1 q = get_recommendations ev h2 q" if ok1
  proof -
    from that assms o have l: "load_and_preprocess_data ev g1 = (out1, True, h1)"
      "load_and_preprocess_data ev g2 = (out2, True, h2)" by simp_all
    from load_True_D[OF l(1)] obtain t1 where
      t1: "read_csv ev = Inr t1" "h1 = built_engine ev t1" by blast
    from load_True_D[OF l(2)] obtain t2 where
      t2: "read_csv ev = Inr t2" "h2 = built_engine ev t2" by blast
    from t1 t2 have "h1 = h2" by simp
    with t1 show ?thesis by (simp add: built_engine_sel)
  qed
  with o show ?thesis by blast
qed

theorem build_deterministic_witness:
  "initial_engine \<noteq> snd (snd (load_and_preprocess_data empty_corpus_env initial_engine)) \<and>
   load_and_preprocess_data example_env initial_engine
     = load_and_preprocess_data example_env
         (snd (snd (load_and_preprocess_data empty_corpus_env initial_engine))) \<and>
   fst (snd (load_and_preprocess_data example_env initial_engine)) = True \<and>
   get_recommendations example_env
     (snd (snd (load_and_preprocess_data example_env initial_engine))) ''a dragon''
   = get_recommendations example_env
     (snd (snd (load_and_preprocess_data example_env
         (snd (snd (load_and_preprocess_data empty_corpus_env initial_engine)))))) ''a dragon''"
proof -
  let ?g2 = "snd (snd (load_and_preprocess_data empty_corpus_env initial_engine))"
  let ?out = "[DataLoaded, NumberOfMovies 2, TfidfCreated]"
  let ?h = "built_engine example_env example_table"
  have "movies_df ?g2 \<noteq> movies_df initial_engine"
    by (simp add: empty_corpus_load initial_engine_def)
  then have ne: "initial_engine \<noteq> ?g2" by metis
  have l1: "load_and_preprocess_data example_env initial_engine = (?out, True, ?h)"
    by (rule example_load)
  have l2: "load_and_preprocess_data example_env ?g2 = (?out, True, ?h)"
    by (rule example_load)
  from build_deterministic[OF l1 l2, of "''a dragon''"] ne l1 l2 show ?thesis
    by simp
qed

section \<open>Claim C10: the tokens that reach the vocabulary\<close>

text \<open>
  The word \<open>x\<close> of the storyline \<open>Planet X\<close> is on neither stop list, and it is not among
  the tokens of the analyzer: the removed tokens are more than the union of the two lists.
\<close>

theorem stop_word_union_counterexample:
  "''x'' \<in> set (words_of planet_text) \<and>
   ''x'' \<notin> set (nltk_stopwords example_env) \<union> set (ENGLISH_STOP_WORDS example_env) \<and>
   build_analyzer (ENGLISH_STOP_WORDS example_env)
       (clean_text (nltk_stopwords example_env) planet_text) = [''planet''] \<and>
   [w \<leftarrow> words_of planet_text.
      w \<notin> set (nltk_stopwords example_env) \<union> set (ENGLISH_STOP_WORDS example_env)]
     = [''planet'', ''x'']"
  by (simp add: words_of_def planet_text_def example_env_def text_simps)

text \<open>
  Claim C10, amended. The vectorizer drops the tokens of scikit-learn's stop list, and its
  token pattern drops every token shorter than two characters. After a successful build the
  vocabulary consists of the words of the indexed storylines that are on neither stop list
  and have two characters or more, and the query vector counts exactly the words of the
  query of that kind: the removed tokens are the union of the two lists and the
  one-character tokens, the same at build time and at query time.
\<close>

theorem effective_stop_words:
  assumes "load_and_preprocess_data ev g = (out, True, g')"
  shows "\<exists>df vec vocab.
           movies_df g' = Some df \<and> tfidf_vectorizer g' = Some vec \<and>
           vocabulary vec = Some vocab \<and>
           set vocab = (\<Union>r \<in> set (rows df). set (effective_tokens ev (text_of (Storyline r)))) \<and>
           build_analyzer (stop_words vec) (clean_text (nltk_stopwords ev) q)
             = effective_tokens ev q \<and>
           build_analyzer (stop_words vec) (preprocess_user_storyline (nltk_stopwords ev) q)
             = effective_tokens ev q \<and>
           transform vec [preprocess_user_storyline (nltk_stopwords ev) q]
             = Inr [weigh vocab (idf vec) (effective_tokens ev q)]"
proof -
  from load_True_D[OF assms] obtain table where
    g': "g' = built_engine ev table" by blast
  let ?df = "\<lparr>rows = dropna table, Cleaned_Storyline = Some (cleaned_of ev table)\<rparr>"
  let ?vocab = "vocabulary_of (docs_of ev table)"
  let ?vec = "\<lparr>stop_words = ENGLISH_STOP_WORDS ev, vocabulary = Some ?vocab,
               idf = idf_of (docs_of ev table) ?vocab\<rparr>"
  have sel: "movies_df g' = Some ?df" "tfidf_vectorizer g' = Some ?vec"
    by (simp_all add: g' built_engine_sel)
  have voc: "vocabulary ?vec = Some ?vocab" by simp
  have d: "docs_of ev table = map (\<lambda>r. effective_tokens ev (text_of (Storyline r))) (dropna table)"
    by (simp add: docs_of_def cleaned_of_def analyzer_clean_text)
  have s: "set ?vocab = (\<Union>r \<in> set (rows ?df). set (effective_tokens ev (text_of (Storyline r))))"
    by (simp add: set_vocabulary_of d)
  have a: "build_analyzer (stop_words ?vec) (clean_text (nltk_stopwords ev) q) = effective_tokens ev q"
    by (simp add: analyzer_clean_text)
  have b: "build_analyzer (stop_words ?vec) (preprocess_user_storyline (nltk_stopwords ev) q)
             = effective_tokens ev q"
    by (simp add: preprocess_user_storyline_eq analyzer_clean_text)
  have t: "transform ?vec [preprocess_user_storyline (nltk_stopwords ev) q]
             = Inr [weigh ?vocab (idf ?vec) (effective_tokens ev q)]"
    using transform_query[OF voc, of "nltk_stopwords ev" q] b
    by (simp add: query_vector_def)
  from sel voc s a b t show ?thesis by blast
qed

theorem effective_stop_words_witness:
  "effective_tokens example_env ''The dragon battles Planet X'' = [''dragon'', ''battles'', ''planet''] \<and>
   (\<exists>out g' vec vocab.
      load_and_preprocess_data example_env initial_engine = (out, True, g') \<and>
      tfidf_vectorizer g' = Some vec \<and> vocabulary vec = Some vocab \<and>
      transform vec [preprocess_user_storyline (nltk_stopwords example_env)
                       ''The dragon battles Planet X'']
        = Inr [weigh vocab (idf vec) [''dragon'', ''battles'', ''planet'']])"
proof -
  have e: "effective_tokens example_env ''The dragon battles Planet X''
             = [''dragon'', ''battles'', ''planet'']"
    by (simp add: effective_tokens_def words_of_def example_env_def text_simps)
  from effective_stop_words[OF example_load[of initial_engine], of "''The dragon battles Planet X''"]
    example_load[of initial_engine] e
  show ?thesis by (simp only: e) blast
qed

end
